theory Spec2Isabelle
  imports Complex_Main
begin

section \<open>The Celestia observer: frames, journeys and the per-tick update\<close>

text \<open>
  A shallow embedding of \<^verbatim>\<open>src/celengine/observer.cpp\<close> and \<^verbatim>\<open>observer.h\<close>.
  C++ \<^verbatim>\<open>double\<close> and \<^verbatim>\<open>float\<close> values are real numbers here, so every statement below is
  about the arithmetic the code writes down, not about its rounding; the one narrowing
  conversion of the source, \<^verbatim>\<open>static_cast<float>\<close> in \<^verbatim>\<open>Observer::update\<close>, is kept as a
  function of the environment. Classes of the repository that are declared elsewhere
  (\<^verbatim>\<open>Selection\<close>, \<^verbatim>\<open>ReferenceFrame\<close> and its subclasses, \<^verbatim>\<open>UniversalCoord\<close>) and the Eigen
  and celmath helpers appear either as data with the operations the spec gives them, or
  as functions of the record \<open>Externals\<close>.
\<close>

subsection \<open>Eigen vectors and quaternions\<close>

datatype Vector3d = Vector3d (vx: real) (vy: real) (vz: real)

definition Zero3 :: Vector3d where
  "Zero3 = Vector3d 0 0 0"

definition UnitY :: Vector3d where
  "UnitY = Vector3d 0 1 0"

definition UnitZ :: Vector3d where
  "UnitZ = Vector3d 0 0 1"

definition vadd :: "Vector3d \<Rightarrow> Vector3d \<Rightarrow> Vector3d" where
  "vadd a b = Vector3d (vx a + vx b) (vy a + vy b) (vz a + vz b)"

definition vsub :: "Vector3d \<Rightarrow> Vector3d \<Rightarrow> Vector3d" where
  "vsub a b = Vector3d (vx a - vx b) (vy a - vy b) (vz a - vz b)"

definition vscale :: "Vector3d \<Rightarrow> real \<Rightarrow> Vector3d" where
  "vscale a c = Vector3d (vx a * c) (vy a * c) (vz a * c)"

definition vdiv :: "Vector3d \<Rightarrow> real \<Rightarrow> Vector3d" where
  "vdiv a c = Vector3d (vx a / c) (vy a / c) (vz a / c)"

definition vneg :: "Vector3d \<Rightarrow> Vector3d" where
  "vneg a = Vector3d (- vx a) (- vy a) (- vz a)"

definition dot :: "Vector3d \<Rightarrow> Vector3d \<Rightarrow> real" where
  "dot a b = vx a * vx b + vy a * vy b + vz a * vz b"

definition cross :: "Vector3d \<Rightarrow> Vector3d \<Rightarrow> Vector3d" where
  "cross a b = Vector3d (vy a * vz b - vz a * vy b)
                        (vz a * vx b - vx a * vz b)
                        (vx a * vy b - vy a * vx b)"

definition squaredNorm :: "Vector3d \<Rightarrow> real" where
  "squaredNorm a = dot a a"

definition vnorm :: "Vector3d \<Rightarrow> real" where
  "vnorm a = sqrt (squaredNorm a)"

text \<open>Eigen's \<^verbatim>\<open>normalized()\<close> and \<^verbatim>\<open>normalize()\<close> return a vector of squared norm zero as it
  is, and divide by the norm otherwise.\<close>

definition normalized :: "Vector3d \<Rightarrow> Vector3d" where
  "normalized a = (if squaredNorm a > 0 then vdiv a (sqrt (squaredNorm a)) else a)"

text \<open>Eigen's \<^verbatim>\<open>Quaterniond(w, x, y, z)\<close>.\<close>

datatype Quaterniond = Quaterniond (qw: real) (qx: real) (qy: real) (qz: real)

definition qIdentity :: Quaterniond where
  "qIdentity = Quaterniond 1 0 0 0"

definition qvec :: "Quaterniond \<Rightarrow> Vector3d" where
  "qvec q = Vector3d (qx q) (qy q) (qz q)"

definition conjugate :: "Quaterniond \<Rightarrow> Quaterniond" where
  "conjugate q = Quaterniond (qw q) (- qx q) (- qy q) (- qz q)"

definition qmul :: "Quaterniond \<Rightarrow> Quaterniond \<Rightarrow> Quaterniond" where
  "qmul a b = Quaterniond
     (qw a * qw b - qx a * qx b - qy a * qy b - qz a * qz b)
     (qw a * qx b + qx a * qw b + qy a * qz b - qz a * qy b)
     (qw a * qy b + qy a * qw b + qz a * qx b - qx a * qz b)
     (qw a * qz b + qz a * qw b + qx a * qy b - qy a * qx b)"

definition qSquaredNorm :: "Quaterniond \<Rightarrow> real" where
  "qSquaredNorm q = qw q * qw q + qx q * qx q + qy q * qy q + qz q * qz q"

definition qnormalize :: "Quaterniond \<Rightarrow> Quaterniond" where
  "qnormalize q =
     (if qSquaredNorm q > 0
      then (let n = sqrt (qSquaredNorm q) in Quaterniond (qw q / n) (qx q / n) (qy q / n) (qz q / n))
      else q)"

text \<open>\<^verbatim>\<open>Quaterniond(a.coeffs() + c * b.coeffs())\<close>: the coefficients added one by one.\<close>

definition qaddscaled :: "Quaterniond \<Rightarrow> real \<Rightarrow> Quaterniond \<Rightarrow> Quaterniond" where
  "qaddscaled a c b =
     Quaterniond (qw a + c * qw b) (qx a + c * qx b) (qy a + c * qy b) (qz a + c * qz b)"

text \<open>Eigen's \<^verbatim>\<open>q * v\<close> for a quaternion and a vector:
  \<^verbatim>\<open>uv = q.vec().cross(v); uv += uv; return v + q.w() * uv + q.vec().cross(uv)\<close>.\<close>

definition qrot :: "Quaterniond \<Rightarrow> Vector3d \<Rightarrow> Vector3d" where
  "qrot q v =
     (let uv = cross (qvec q) v;
          uv2 = vadd uv uv
      in vadd (vadd v (vscale uv2 (qw q))) (cross (qvec q) uv2))"

subsection \<open>High-precision coordinates\<close>

text \<open>Modelled from the spec: \<^verbatim>\<open>UniversalCoord\<close> is a three-dimensional point with the offset
  operations \<^verbatim>\<open>offsetKm\<close> (add a relative offset) and \<^verbatim>\<open>offsetFromKm\<close> (subtract, giving a
  relative vector), in kilometres. Its bounds check \<^verbatim>\<open>isOutOfBounds\<close> is a function of the
  environment.\<close>

datatype UniversalCoord = UniversalCoord (ux: real) (uy: real) (uz: real)

definition ucZero :: UniversalCoord where
  "ucZero = UniversalCoord 0 0 0"

definition offsetKm :: "UniversalCoord \<Rightarrow> Vector3d \<Rightarrow> UniversalCoord" where
  "offsetKm p v = UniversalCoord (ux p + vx v) (uy p + vy v) (uz p + vz v)"

definition offsetFromKm :: "UniversalCoord \<Rightarrow> UniversalCoord \<Rightarrow> Vector3d" where
  "offsetFromKm p q = Vector3d (ux p - ux q) (uy p - uy q) (uz p - uz q)"

subsection \<open>Selections\<close>

text \<open>The objects a \<^verbatim>\<open>Selection\<close> can hold, with the members the observer reads:
  a body's classification, radius, frame tree (its bounding sphere radius when there is
  one) and planetary system; a star's visibility, orbit (its bounding radius when there is
  one) and orbiting stars; a location's size and parent body.\<close>

datatype Classification = Invisible | OtherClassification nat

datatype Star = Star (starIndex: nat) (getVisibility: bool) (getOrbit: "real option")
  (getOrbitingStars: "Star list option")

datatype Body = Body (bodyIndex: nat) (getClassification: Classification) (getRadius: real)
    (getFrameTree: "real option") (getSystem: "PlanetarySystem option")
  and PlanetarySystem = PlanetarySystem (getPrimaryBody: "Body option") (getStar: "Star option")

datatype DeepSkyObject = DeepSkyObject nat

datatype Location = Location (locationIndex: nat) (getSize: real) (getParentBody: "Body option")

datatype Selection =
    Type_Nil
  | Type_Body Body
  | Type_Star Star
  | Type_DeepSky DeepSkyObject
  | Type_Location Location

text \<open>\<^verbatim>\<open>Selection(Body*)\<close> and \<^verbatim>\<open>Selection(Star*)\<close>: a null pointer gives the empty selection.\<close>

definition Selection_body :: "Body option \<Rightarrow> Selection" where
  "Selection_body b = (case b of None \<Rightarrow> Type_Nil | Some x \<Rightarrow> Type_Body x)"

definition Selection_star :: "Star option \<Rightarrow> Selection" where
  "Selection_star s = (case s of None \<Rightarrow> Type_Nil | Some x \<Rightarrow> Type_Star x)"

definition empty_sel :: "Selection \<Rightarrow> bool" where
  "empty_sel s = (s = Type_Nil)"

definition body :: "Selection \<Rightarrow> Body option" where
  "body s = (case s of Type_Body b \<Rightarrow> Some b | _ \<Rightarrow> None)"

definition star :: "Selection \<Rightarrow> Star option" where
  "star s = (case s of Type_Star b \<Rightarrow> Some b | _ \<Rightarrow> None)"

definition location :: "Selection \<Rightarrow> Location option" where
  "location s = (case s of Type_Location b \<Rightarrow> Some b | _ \<Rightarrow> None)"

subsection \<open>Reference frames and observer frames\<close>

text \<open>The frames \<^verbatim>\<open>ObserverFrame::createFrame\<close> builds, as the constructor calls it makes.
  What a frame computes is given by the environment.\<close>

datatype FrameVector =
    RelativePositionVector Selection Selection
  | RelativeVelocityVector Selection Selection
  | ConstantVector Vector3d ReferenceFrame
  and ReferenceFrame =
    J2000EclipticFrame Selection
  | BodyMeanEquatorFrame Selection Selection
  | BodyFixedFrame Selection Selection
  | TwoVectorFrame Selection FrameVector nat FrameVector nat

text \<open>Modelled from the spec: every frame is anchored to a center selection, the first
  argument of its constructor, which \<^verbatim>\<open>getCenter\<close> returns.\<close>

fun getCenter :: "ReferenceFrame \<Rightarrow> Selection" where
  "getCenter (J2000EclipticFrame c) = c"
| "getCenter (BodyMeanEquatorFrame c _) = c"
| "getCenter (BodyFixedFrame c _) = c"
| "getCenter (TwoVectorFrame c _ _ _ _) = c"

datatype CoordinateSystem =
    Universal
  | Ecliptical
  | Equatorial
  | BodyFixed
  | PhaseLock
  | Chase
  | PhaseLock_Old
  | Chase_Old
  | ObserverLocal
  | Unknown

text \<open>The collaborators of the observer that are not part of \<^verbatim>\<open>observer.cpp\<close>. The last
  field, \<open>notANumber\<close>, stands for the vector whose components are IEEE NaNs: it is what
  the source's \<^verbatim>\<open>double\<close> arithmetic gives when a zero vector is scaled by a quotient with
  the divisor zero (\<^verbatim>\<open>0 * (x / 0)\<close>) or divided by zero (\<^verbatim>\<open>0 / 0\<close>). No real vector is that
  value, so that the model leaves it open and nothing is known of it.\<close>

record Externals =
  isOutOfBounds :: "UniversalCoord \<Rightarrow> bool"
  rfToUniversal :: "ReferenceFrame \<Rightarrow> UniversalCoord \<Rightarrow> real \<Rightarrow> UniversalCoord"
  rfFromUniversal :: "ReferenceFrame \<Rightarrow> UniversalCoord \<Rightarrow> real \<Rightarrow> UniversalCoord"
  rfToUniversalQ :: "ReferenceFrame \<Rightarrow> Quaterniond \<Rightarrow> real \<Rightarrow> Quaterniond"
  rfFromUniversalQ :: "ReferenceFrame \<Rightarrow> Quaterniond \<Rightarrow> real \<Rightarrow> Quaterniond"
  rfGetOrientation :: "ReferenceFrame \<Rightarrow> real \<Rightarrow> Quaterniond"
  selGetPosition :: "Selection \<Rightarrow> real \<Rightarrow> UniversalCoord"
  selRadius :: "Selection \<Rightarrow> real"
  selParent :: "Selection \<Rightarrow> Selection"
  LookAt :: "Vector3d \<Rightarrow> Vector3d \<Rightarrow> Vector3d \<Rightarrow> Quaterniond"
  qslerp :: "Quaterniond \<Rightarrow> real \<Rightarrow> Quaterniond \<Rightarrow> Quaterniond"
  setFromTwoVectors :: "Vector3d \<Rightarrow> Vector3d \<Rightarrow> Quaterniond"
  toFloat :: "real \<Rightarrow> real"
  notANumber :: Vector3d

record ObserverFrame =
  coordSys :: CoordinateSystem
  frame_rf :: ReferenceFrame
  targetObject :: Selection

definition createFrame :: "Externals \<Rightarrow> CoordinateSystem \<Rightarrow> Selection \<Rightarrow> Selection \<Rightarrow> ReferenceFrame" where
  "createFrame E cs refObject targetObj =
     (case cs of
        Universal \<Rightarrow> J2000EclipticFrame Type_Nil
      | Ecliptical \<Rightarrow> J2000EclipticFrame refObject
      | Equatorial \<Rightarrow> BodyMeanEquatorFrame refObject refObject
      | BodyFixed \<Rightarrow> BodyFixedFrame refObject refObject
      | PhaseLock \<Rightarrow>
          TwoVectorFrame refObject
            (RelativePositionVector refObject targetObj) 1
            (RelativeVelocityVector refObject targetObj) 2
      | Chase \<Rightarrow>
          TwoVectorFrame refObject
            (RelativeVelocityVector refObject (selParent E refObject)) 1
            (RelativePositionVector refObject (selParent E refObject)) 2
      | PhaseLock_Old \<Rightarrow>
          TwoVectorFrame refObject
            (RelativePositionVector refObject targetObj) 3
            (ConstantVector UnitY (BodyMeanEquatorFrame refObject refObject)) 2
      | Chase_Old \<Rightarrow>
          TwoVectorFrame refObject
            (RelativeVelocityVector (selParent E refObject) refObject) 3
            (ConstantVector UnitY (BodyMeanEquatorFrame refObject refObject)) 2
      | ObserverLocal \<Rightarrow> J2000EclipticFrame Type_Nil
      | Unknown \<Rightarrow> J2000EclipticFrame refObject)"

text \<open>The three constructors of \<^verbatim>\<open>ObserverFrame\<close>.\<close>

definition ObserverFrame_default :: "Externals \<Rightarrow> ObserverFrame" where
  "ObserverFrame_default E =
     \<lparr>coordSys = Universal, frame_rf = createFrame E Universal Type_Nil Type_Nil,
      targetObject = Type_Nil\<rparr>"

definition ObserverFrame_new :: "Externals \<Rightarrow> CoordinateSystem \<Rightarrow> Selection \<Rightarrow> Selection \<Rightarrow> ObserverFrame" where
  "ObserverFrame_new E cs refObject targetObj =
     \<lparr>coordSys = cs, frame_rf = createFrame E cs refObject targetObj, targetObject = targetObj\<rparr>"

definition ObserverFrame_wrap :: "ReferenceFrame \<Rightarrow> ObserverFrame" where
  "ObserverFrame_wrap f = \<lparr>coordSys = Unknown, frame_rf = f, targetObject = Type_Nil\<rparr>"

definition getCoordinateSystem :: "ObserverFrame \<Rightarrow> CoordinateSystem" where
  "getCoordinateSystem f = coordSys f"

definition getRefObject :: "ObserverFrame \<Rightarrow> Selection" where
  "getRefObject f = getCenter (frame_rf f)"

definition convertFromUniversal :: "Externals \<Rightarrow> ObserverFrame \<Rightarrow> UniversalCoord \<Rightarrow> real \<Rightarrow> UniversalCoord" where
  "convertFromUniversal E f uc tjd = rfFromUniversal E (frame_rf f) uc tjd"

definition convertToUniversal :: "Externals \<Rightarrow> ObserverFrame \<Rightarrow> UniversalCoord \<Rightarrow> real \<Rightarrow> UniversalCoord" where
  "convertToUniversal E f uc tjd = rfToUniversal E (frame_rf f) uc tjd"

definition convertFromUniversalQ :: "Externals \<Rightarrow> ObserverFrame \<Rightarrow> Quaterniond \<Rightarrow> real \<Rightarrow> Quaterniond" where
  "convertFromUniversalQ E f q tjd = rfFromUniversalQ E (frame_rf f) q tjd"

definition convertToUniversalQ :: "Externals \<Rightarrow> ObserverFrame \<Rightarrow> Quaterniond \<Rightarrow> real \<Rightarrow> Quaterniond" where
  "convertToUniversalQ E f q tjd = rfToUniversalQ E (frame_rf f) q tjd"

text \<open>\<^verbatim>\<open>ObserverFrame::convert\<close>, for positions and for orientations: from the one frame to
  universal coordinates, and from there to the other frame.\<close>

definition convert :: "Externals \<Rightarrow> ObserverFrame \<Rightarrow> ObserverFrame \<Rightarrow> UniversalCoord \<Rightarrow> real \<Rightarrow> UniversalCoord" where
  "convert E fromFrame toFrame uc t =
     convertFromUniversal E toFrame (convertToUniversal E fromFrame uc t) t"

definition convertQ :: "Externals \<Rightarrow> ObserverFrame \<Rightarrow> ObserverFrame \<Rightarrow> Quaterniond \<Rightarrow> real \<Rightarrow> Quaterniond" where
  "convertQ E fromFrame toFrame q t =
     convertFromUniversalQ E toFrame (convertToUniversalQ E fromFrame q t) t"

subsection \<open>Journeys and the observer\<close>

datatype ObserverMode = Free | Travelling

datatype TrajectoryType = Linear | GreatCircle | CircularOrbit

text \<open>\<^verbatim>\<open>Observer::JourneyParams\<close>; its members \<^verbatim>\<open>from\<close> and \<^verbatim>\<open>to\<close> are \<open>jfrom\<close> and \<open>jto\<close> here.\<close>

record JourneyParams =
  duration :: real
  startTime :: real
  jfrom :: UniversalCoord
  jto :: UniversalCoord
  initialOrientation :: Quaterniond
  finalOrientation :: Quaterniond
  startInterpolation :: real
  endInterpolation :: real
  expFactor :: real
  accelTime :: real
  rotation1 :: Quaterniond
  centerObject :: Selection
  traj :: TrajectoryType

text \<open>A \<^verbatim>\<open>shared_ptr<const ObserverFrame>\<close> is the address of the frame object together with
  the object; two pointers are equal when their addresses are. The observer's own pointer
  is null only inside its copy constructor and assignment operator, which are not part of
  this model.\<close>

type_synonym ObserverFramePtr = "nat \<times> ObserverFrame"

record Observer =
  simTime :: real
  position :: UniversalCoord
  orientation :: Quaterniond
  velocity :: Vector3d
  angularVelocity :: Vector3d
  positionUniv :: UniversalCoord
  orientationUniv :: Quaterniond
  frame :: ObserverFramePtr
  realTime :: real
  targetSpeed :: real
  targetVelocity :: Vector3d
  initialVelocity :: Vector3d
  beginAccelTime :: real
  observerMode :: ObserverMode
  journey :: JourneyParams
  trackObject :: Selection
  trackingOrientation :: Quaterniond
  fov :: real
  reverseFlag :: bool
  locationFilter :: nat
  displayedSurface :: string

definition maximumSimTime :: real where
  "maximumSimTime = 730486721060.00073"

definition minimumSimTime :: real where
  "minimumSimTime = - 730498278941.99951"

definition VELOCITY_CHANGE_TIME :: real where
  "VELOCITY_CHANGE_TIME = 0.25"

definition JourneyDuration :: real where
  "JourneyDuration = 5.0"

definition StartInterpolation :: real where
  "StartInterpolation = 0.25"

definition EndInterpolation :: real where
  "EndInterpolation = 0.75"

definition AccelerationTime :: real where
  "AccelerationTime = 0.5"

definition getTime :: "Observer \<Rightarrow> real" where
  "getTime ob = simTime ob"

definition getPosition :: "Observer \<Rightarrow> UniversalCoord" where
  "getPosition ob = positionUniv ob"

definition getOrientation :: "Observer \<Rightarrow> Quaterniond" where
  "getOrientation ob = orientationUniv ob"

definition getFrame :: "Observer \<Rightarrow> ObserverFrame" where
  "getFrame ob = snd (frame ob)"

definition getMode :: "Observer \<Rightarrow> ObserverMode" where
  "getMode ob = observerMode ob"

definition getVelocity :: "Observer \<Rightarrow> Vector3d" where
  "getVelocity ob = velocity ob"

definition setVelocity :: "Vector3d \<Rightarrow> Observer \<Rightarrow> Observer" where
  "setVelocity v ob = ob\<lparr>velocity := v\<rparr>"

definition getAngularVelocity :: "Observer \<Rightarrow> Vector3d" where
  "getAngularVelocity ob = angularVelocity ob"

text \<open>\<^verbatim>\<open>Observer::updateUniversal\<close>.\<close>

definition updateUniversal :: "Externals \<Rightarrow> Observer \<Rightarrow> Observer" where
  "updateUniversal E ob =
     (let newPositionUniv = convertToUniversal E (getFrame ob) (position ob) (simTime ob);
          ob1 = (if isOutOfBounds E newPositionUniv
                 then ob\<lparr>position := convertFromUniversal E (getFrame ob) (positionUniv ob) (simTime ob)\<rparr>
                 else ob\<lparr>positionUniv := newPositionUniv\<rparr>)
      in ob1\<lparr>orientationUniv := convertToUniversalQ E (getFrame ob1) (orientation ob1) (simTime ob1)\<rparr>)"

text \<open>\<^verbatim>\<open>Observer::setPosition\<close> and \<^verbatim>\<open>Observer::setOrientation\<close>, both given universal
  coordinates.\<close>

definition setPosition :: "Externals \<Rightarrow> UniversalCoord \<Rightarrow> Observer \<Rightarrow> Observer" where
  "setPosition E p ob =
     ob\<lparr>positionUniv := p, position := convertFromUniversal E (getFrame ob) p (getTime ob)\<rparr>"

definition setOrientation :: "Externals \<Rightarrow> Quaterniond \<Rightarrow> Observer \<Rightarrow> Observer" where
  "setOrientation E q ob =
     ob\<lparr>orientationUniv := q, orientation := convertFromUniversalQ E (getFrame ob) q (getTime ob)\<rparr>"

text \<open>\<^verbatim>\<open>Observer::convertFrameCoordinates\<close>.\<close>

definition convertFrameCoordinates :: "Externals \<Rightarrow> ObserverFrame \<Rightarrow> Observer \<Rightarrow> Observer" where
  "convertFrameCoordinates E newFrame ob =
     (let now = getTime ob;
          j = journey ob
      in ob\<lparr>position := convertFromUniversal E newFrame (positionUniv ob) now,
             orientation := convertFromUniversalQ E newFrame (orientationUniv ob) now,
             journey := j\<lparr>jfrom := convert E (getFrame ob) newFrame (jfrom j) now,
                           initialOrientation := convertQ E (getFrame ob) newFrame (initialOrientation j) now,
                           jto := convert E (getFrame ob) newFrame (jto j) now,
                           finalOrientation := convertQ E (getFrame ob) newFrame (finalOrientation j) now\<rparr>\<rparr>)"

text \<open>The three overloads of \<^verbatim>\<open>Observer::setFrame\<close>. The first two allocate the new frame
  object; \<open>a\<close> is the address it gets.\<close>

definition setFrame3 :: "Externals \<Rightarrow> nat \<Rightarrow> CoordinateSystem \<Rightarrow> Selection \<Rightarrow> Selection \<Rightarrow> Observer \<Rightarrow> Observer" where
  "setFrame3 E a cs refObj targetObj ob =
     (let newFrame = ObserverFrame_new E cs refObj targetObj
      in (convertFrameCoordinates E newFrame ob)\<lparr>frame := (a, newFrame)\<rparr>)"

definition setFrame2 :: "Externals \<Rightarrow> nat \<Rightarrow> CoordinateSystem \<Rightarrow> Selection \<Rightarrow> Observer \<Rightarrow> Observer" where
  "setFrame2 E a cs refObj ob = setFrame3 E a cs refObj Type_Nil ob"

definition setFrame_ptr :: "Externals \<Rightarrow> ObserverFramePtr \<Rightarrow> Observer \<Rightarrow> Observer" where
  "setFrame_ptr E f ob =
     (if fst (frame ob) \<noteq> fst f
      then (convertFrameCoordinates E (snd f) ob)\<lparr>frame := f\<rparr>
      else ob)"

subsection \<open>The per-tick update\<close>

definition clamp :: "real \<Rightarrow> real \<Rightarrow> real \<Rightarrow> real" where
  "clamp v lo hi = (if v < lo then lo else if hi < v then hi else v)"

text \<open>Modelled from the spec: celmath's \<^verbatim>\<open>lerp\<close>, linear interpolation from \<open>a\<close> to \<open>b\<close>.\<close>

definition lerp :: "real \<Rightarrow> real \<Rightarrow> real \<Rightarrow> real" where
  "lerp t a b = a + t * (b - a)"

text \<open>The static \<^verbatim>\<open>slerp\<close> of \<^verbatim>\<open>observer.cpp\<close>, on vectors. The source divides \<open>v0\<close> and
  \<open>v1\<close> by their norms unguarded; when one of the norms is zero the quotient is a vector of
  NaNs, and so is every value computed from it and the result.\<close>

definition slerp :: "Externals \<Rightarrow> real \<Rightarrow> Vector3d \<Rightarrow> Vector3d \<Rightarrow> Vector3d" where
  "slerp E t v0 v1 =
     (let r0 = vnorm v0;
          r1 = vnorm v1
      in if r0 = 0 \<or> r1 = 0 then notANumber E
         else (let u = vdiv v0 r0;
                   n = normalized (cross u (vdiv v1 r1));
                   v = cross n u;
                   v' = (if dot v v1 < 0 then vneg v else v);
                   cosTheta = dot u (vdiv v1 r1);
                   theta = arccos cosTheta
               in vscale (vadd (vscale u (cos (theta * t))) (vscale v' (sin (theta * t))))
                    (lerp t r0 r1)))"

text \<open>The fraction of the trip that has elapsed, a \<^verbatim>\<open>float\<close> in the source.\<close>

definition journeyFraction :: "Externals \<Rightarrow> Observer \<Rightarrow> real" where
  "journeyFraction E ob =
     (let j = journey ob
      in if duration j > 0
         then toFloat E (clamp ((realTime ob - startTime j) / duration j) 0 1)
         else 1)"

text \<open>The distance profile \<open>x\<close> of the trip at the fraction \<open>t\<close>.\<close>

definition travelX :: "JourneyParams \<Rightarrow> real \<Rightarrow> real" where
  "travelX j t =
     (let u = (if t < 0.5 then t * 2 else (1 - t) * 2)
      in if u < accelTime j
         then exp (expFactor j * u) - 1
         else exp (expFactor j * accelTime j) * (expFactor j * (u - accelTime j) + 1) - 1)"

text \<open>The center of a great-circle trip: the parent of the frame's reference body.\<close>

definition greatCircleCenter :: "Selection \<Rightarrow> Selection" where
  "greatCircleCenter centerObj =
     (case body centerObj of
        None \<Rightarrow> centerObj
      | Some b \<Rightarrow>
          (case getSystem b of
             None \<Rightarrow> centerObj
           | Some sys \<Rightarrow>
               (if getPrimaryBody sys \<noteq> None
                then Selection_body (getPrimaryBody sys)
                else Selection_star (getStar sys))))"

text \<open>The position \<open>p\<close> of the trip at the fraction \<open>t\<close>, one case for each trajectory.\<close>

definition journeyPosition :: "Externals \<Rightarrow> Observer \<Rightarrow> real \<Rightarrow> UniversalCoord" where
  "journeyPosition E ob t =
     (let j = journey ob;
          jv = offsetFromKm (jto j) (jfrom j);
          x = travelX j t
      in case traj j of
           Linear \<Rightarrow>
             (if vnorm jv = 0 then jfrom j
              else (let v = normalized jv
                    in if t < 0.5 then offsetKm (jfrom j) (vscale v x)
                       else offsetKm (jto j) (vscale (vneg v) x)))
         | GreatCircle \<Rightarrow>
             (let centerObj = greatCircleCenter (getRefObject (getFrame ob));
                  ufrom = convertToUniversal E (getFrame ob) (jfrom j) (simTime ob);
                  uto = convertToUniversal E (getFrame ob) (jto j) (simTime ob);
                  origin = selGetPosition E centerObj (simTime ob);
                  v0 = offsetFromKm ufrom origin;
                  v1 = offsetFromKm uto origin
              in if vnorm jv = 0 then jfrom j
                 else (let x' = x / vnorm jv;
                           v = (if t < 0.5 then slerp E x' v0 v1 else slerp E x' v1 v0)
                       in convertFromUniversal E (getFrame ob) (offsetKm origin v) (simTime ob)))
         | CircularOrbit \<Rightarrow>
             (let centerObj = getRefObject (getFrame ob);
                  ufrom = convertToUniversal E (getFrame ob) (jfrom j) (simTime ob);
                  origin = selGetPosition E centerObj (simTime ob);
                  v0 = offsetFromKm ufrom origin
              in if vnorm jv = 0 then jfrom j
                 else (let p = offsetKm origin
                                 (qrot (conjugate (qslerp E qIdentity t (rotation1 j))) v0)
                       in convertFromUniversal E (getFrame ob) p (simTime ob))))"

text \<open>The orientation \<open>q\<close> of the trip at the fraction \<open>t\<close>.\<close>

definition journeyOrientation :: "Externals \<Rightarrow> JourneyParams \<Rightarrow> real \<Rightarrow> Quaterniond" where
  "journeyOrientation E j t =
     (if t \<ge> startInterpolation j \<and> t < endInterpolation j
      then (let v = (if traj j = CircularOrbit then t
                     else (sin ((t - startInterpolation j) /
                                (endInterpolation j - startInterpolation j) * pi / 2.0))\<^sup>2)
            in qslerp E (initialOrientation j) v (finalOrientation j))
      else if t < startInterpolation j then initialOrientation j
      else finalOrientation j)"

text \<open>The body of \<^verbatim>\<open>if (observerMode == Travelling)\<close> in \<^verbatim>\<open>Observer::update\<close>.\<close>

definition updateTravelling :: "Externals \<Rightarrow> Observer \<Rightarrow> Observer" where
  "updateTravelling E ob =
     (let j = journey ob;
          t = journeyFraction E ob;
          p = journeyPosition E ob t;
          q = journeyOrientation E j t;
          ob1 = ob\<lparr>position := p, orientation := q\<rparr>
      in if t = 1
         then (let ob2 = (if traj j \<noteq> CircularOrbit
                          then ob1\<lparr>position := jto j, orientation := finalOrientation j\<rparr>
                          else ob1)
               in setVelocity Zero3 (ob2\<lparr>observerMode := Free\<rparr>))
         else ob1)"

text \<open>The body of \<^verbatim>\<open>if (getVelocity() != targetVelocity)\<close>.\<close>

definition updateVelocity :: "Observer \<Rightarrow> Observer" where
  "updateVelocity ob =
     (let t = clamp ((realTime ob - beginAccelTime ob) / VELOCITY_CHANGE_TIME) 0 1;
          v = vadd (vscale (getVelocity ob) (1 - t)) (vscale (targetVelocity ob) t);
          v' = (if vnorm v < 1 / 10 ^ 12 then Zero3 else v)
      in setVelocity v' ob)"

text \<open>The body of \<^verbatim>\<open>if (observerMode == Free)\<close>.\<close>

definition updateFree :: "real \<Rightarrow> Observer \<Rightarrow> Observer" where
  "updateFree dt ob =
     (let halfAV = vscale (getAngularVelocity ob) 0.5;
          dr = qmul (Quaterniond 0 (vx halfAV) (vy halfAV) (vz halfAV)) (orientation ob)
      in ob\<lparr>orientation := qnormalize (qaddscaled (orientation ob) dt dr)\<rparr>)"

text \<open>The body of \<^verbatim>\<open>if (!trackObject.empty())\<close>.\<close>

definition updateTracking :: "Externals \<Rightarrow> Observer \<Rightarrow> Observer" where
  "updateTracking E ob =
     (let up = qrot (conjugate (getOrientation ob)) UnitY;
          viewDir = normalized (offsetFromKm (selGetPosition E (trackObject ob) (getTime ob))
                                             (getPosition ob))
      in setOrientation E (LookAt E Zero3 viewDir up) ob)"

text \<open>The first lines of \<^verbatim>\<open>Observer::update\<close>: the real time and the simulation time move
  on, and the simulation time is kept within its limits.\<close>

definition advanceTime :: "real \<Rightarrow> real \<Rightarrow> Observer \<Rightarrow> Observer" where
  "advanceTime dt timeScale ob =
     (let ob1 = ob\<lparr>realTime := realTime ob + dt\<rparr>;
          ob2 = ob1\<lparr>simTime := simTime ob1 + (dt / 86400.0) * timeScale\<rparr>;
          ob3 = (if simTime ob2 \<ge> maximumSimTime then ob2\<lparr>simTime := maximumSimTime\<rparr> else ob2)
      in if simTime ob3 \<le> minimumSimTime then ob3\<lparr>simTime := minimumSimTime\<rparr> else ob3)"

text \<open>\<^verbatim>\<open>Observer::update\<close>.\<close>

definition update :: "Externals \<Rightarrow> real \<Rightarrow> real \<Rightarrow> Observer \<Rightarrow> Observer" where
  "update E dt timeScale ob =
     (let ob4 = advanceTime dt timeScale ob;
          ob5 = (if observerMode ob4 = Travelling then updateTravelling E ob4 else ob4);
          ob6 = (if getVelocity ob5 \<noteq> targetVelocity ob5 then updateVelocity ob5 else ob5);
          ob7 = ob6\<lparr>position := offsetKm (position ob6) (vscale (getVelocity ob6) dt)\<rparr>;
          ob8 = (if observerMode ob7 = Free then updateFree dt ob7 else ob7);
          ob9 = updateUniversal E ob8
      in if \<not> empty_sel (trackObject ob9) then updateTracking E ob9 else ob9)"


subsection \<open>Calibrating the travel profile\<close>

text \<open>\<^verbatim>\<open>TravelExpFunc(d, s)(x)\<close>.\<close>

definition TravelExpFunc :: "real \<Rightarrow> real \<Rightarrow> real \<Rightarrow> real" where
  "TravelExpFunc d s x = exp (x * s) * (x * (1 - s) + 1) - 1 - d"

text \<open>Modelled from the spec: celmath's \<^verbatim>\<open>solve_bisection(f, lo, hi, tol)\<close>, which is not part
  of \<^verbatim>\<open>observer.cpp\<close>. It finds the root of a scalar function over an interval to the given
  tolerance by bisection, and returns the root and the residual half-width: the interval
  is halved, keeping the half on which \<open>f\<close> changes sign, until its half-width is below
  the tolerance. A tolerance that is not positive stops the search at once.\<close>

function solve_bisection :: "(real \<Rightarrow> real) \<Rightarrow> real \<Rightarrow> real \<Rightarrow> real \<Rightarrow> real \<times> real" where
  "solve_bisection f lower upper err =
     (let x = (lower + upper) / 2
      in if err \<le> 0 \<or> upper - lower < 2 * err then (x, (upper - lower) / 2)
         else if f x < 0 then solve_bisection f x upper err
         else solve_bisection f lower x err)"
  by pat_completeness auto

termination solve_bisection
proof -
  have halved: "nat \<lfloor>w' / err\<rfloor> < nat \<lfloor>w / err\<rfloor>"
    if "0 < err" and "2 * err \<le> w" and "w' = w / 2" for w w' err :: real
  proof -
    define y where "y = w / err"
    define y' where "y' = w' / err"
    have y2: "2 \<le> y"
      using that by (simp add: y_def pos_le_divide_eq)
    have yy: "y' = y / 2"
      unfolding y_def y'_def that(3) by simp
    have a: "real_of_int \<lfloor>y'\<rfloor> \<le> y'" by (rule of_int_floor_le)
    have b: "y < real_of_int \<lfloor>y\<rfloor> + 1" by linarith
    from a b yy y2 have "real_of_int \<lfloor>y'\<rfloor> < real_of_int \<lfloor>y\<rfloor>" by linarith
    then have "\<lfloor>y'\<rfloor> < \<lfloor>y\<rfloor>" by (simp only: of_int_less_iff)
    moreover have "0 < \<lfloor>y\<rfloor>" using y2 by linarith
    ultimately show ?thesis
      unfolding y_def y'_def zless_nat_conj by blast
  qed
  show ?thesis
  proof (relation "measure (\<lambda>(f, lower, upper, err). nat \<lfloor>(upper - lower) / err\<rfloor>)", goal_cases)
    case 1
    show ?case by simp
  next
    case (2 f lower upper err x)
    then have e: "0 < err" and w: "2 * err \<le> upper - lower"
      and x: "upper - x = (upper - lower) / 2" by auto
    show ?case using halved [OF e w x]
      unfolding in_measure prod.case .
  next
    case (3 f lower upper err x)
    then have e: "0 < err" and w: "2 * err \<le> upper - lower"
      and x: "x - lower = (upper - lower) / 2" by auto
    show ?case using halved [OF e w x]
      unfolding in_measure prod.case .
  qed
qed

declare solve_bisection.simps [simp del]

text \<open>The calibration all journeys share: half the trip's length and the acceleration
  fraction give the growth rate \<^verbatim>\<open>expFactor\<close>.\<close>

definition solveExpFactor :: "real \<Rightarrow> real \<Rightarrow> real" where
  "solveExpFactor distance accel =
     fst (solve_bisection (TravelExpFunc distance accel) 0.0001 100.0 (1 / 10 ^ 10))"

subsection \<open>Journey parameters\<close>

text \<open>The private methods that fill in a journey. Their \<^verbatim>\<open>JourneyParams&\<close> argument is the
  observer's own \<^verbatim>\<open>journey\<close> at every call in \<^verbatim>\<open>observer.cpp\<close>, so they update that member.\<close>

definition frameOrientationConj :: "Externals \<Rightarrow> CoordinateSystem \<Rightarrow> Selection \<Rightarrow> real \<Rightarrow> Quaterniond" where
  "frameOrientationConj E cs destination t =
     conjugate (rfGetOrientation E (frame_rf (ObserverFrame_new E cs destination Type_Nil)) t)"

definition journeyToFrame :: "Externals \<Rightarrow> Observer \<Rightarrow> Observer" where
  "journeyToFrame E ob =
     (let j = journey ob;
          j1 = j\<lparr>jfrom := convertFromUniversal E (getFrame ob) (jfrom j) (getTime ob)\<rparr>;
          j2 = j1\<lparr>initialOrientation :=
                    convertFromUniversalQ E (getFrame ob) (initialOrientation j1) (getTime ob)\<rparr>;
          j3 = j2\<lparr>jto := convertFromUniversal E (getFrame ob) (jto j2) (getTime ob)\<rparr>;
          j4 = j3\<lparr>finalOrientation :=
                    convertFromUniversalQ E (getFrame ob) (finalOrientation j3) (getTime ob)\<rparr>
      in ob\<lparr>journey := j4\<rparr>)"

definition computeGotoParameters ::
  "Externals \<Rightarrow> nat \<Rightarrow> Selection \<Rightarrow> real \<Rightarrow> real \<Rightarrow> real \<Rightarrow> real \<Rightarrow> Vector3d \<Rightarrow> CoordinateSystem
     \<Rightarrow> Vector3d \<Rightarrow> CoordinateSystem \<Rightarrow> Observer \<Rightarrow> Observer" where
  "computeGotoParameters E a destination gotoTime startInter endInter accel offset offsetCoordSys
       up upCoordSys ob =
     (let ob1 = (if getCoordinateSystem (getFrame ob) = PhaseLock
                 then setFrame2 E a Ecliptical destination ob
                 else setFrame2 E a (getCoordinateSystem (getFrame ob)) destination ob);
          targetPosition = selGetPosition E destination (getTime ob1);
          from_u = getPosition ob1;
          to_u = (if offsetCoordSys = ObserverLocal
                  then offsetKm targetPosition (qrot (conjugate (orientationUniv ob1)) offset)
                  else offsetKm targetPosition
                         (qrot (frameOrientationConj E offsetCoordSys destination (getTime ob1)) offset));
          upd = (if upCoordSys = ObserverLocal
                 then qrot (conjugate (orientationUniv ob1)) up
                 else qrot (frameOrientationConj E upCoordSys destination (getTime ob1)) up);
          focus = offsetFromKm targetPosition to_u;
          distance = vnorm (offsetFromKm from_u to_u) / 2.0;
          j = (journey ob1)
                \<lparr>traj := Linear,
                 duration := gotoTime,
                 startTime := realTime ob1,
                 jfrom := from_u,
                 jto := to_u,
                 initialOrientation := getOrientation ob1,
                 finalOrientation := LookAt E Zero3 focus upd,
                 startInterpolation := min startInter endInter,
                 endInterpolation := max startInter endInter,
                 accelTime := accel,
                 expFactor := solveExpFactor distance accel\<rparr>
      in journeyToFrame E (ob1\<lparr>journey := j\<rparr>))"

definition computeGotoParametersGC ::
  "Externals \<Rightarrow> nat \<Rightarrow> Selection \<Rightarrow> real \<Rightarrow> Vector3d \<Rightarrow> CoordinateSystem
     \<Rightarrow> Vector3d \<Rightarrow> CoordinateSystem \<Rightarrow> Selection \<Rightarrow> Observer \<Rightarrow> Observer" where
  "computeGotoParametersGC E a destination gotoTime offset offsetCoordSys up upCoordSys centerObj ob =
     (let ob1 = setFrame2 E a (getCoordinateSystem (getFrame ob)) destination ob;
          targetPosition = selGetPosition E destination (getTime ob1);
          from_u = getPosition ob1;
          offsetTransformed = qrot (frameOrientationConj E offsetCoordSys destination (getTime ob1)) offset;
          to_u = offsetKm targetPosition offsetTransformed;
          upd = (if upCoordSys = ObserverLocal
                 then qrot (conjugate (orientationUniv ob1)) up
                 else qrot (frameOrientationConj E upCoordSys destination (getTime ob1)) up);
          focus = offsetFromKm targetPosition to_u;
          distance = vnorm (offsetFromKm from_u to_u) / 2.0;
          j = (journey ob1)
                \<lparr>traj := GreatCircle,
                 duration := gotoTime,
                 startTime := realTime ob1,
                 centerObject := centerObj,
                 jfrom := from_u,
                 jto := to_u,
                 initialOrientation := getOrientation ob1,
                 finalOrientation := LookAt E Zero3 focus upd,
                 startInterpolation := min StartInterpolation EndInterpolation,
                 endInterpolation := max StartInterpolation EndInterpolation,
                 accelTime := AccelerationTime,
                 expFactor := solveExpFactor distance AccelerationTime\<rparr>
      in journeyToFrame E (ob1\<lparr>journey := j\<rparr>))"

definition computeCenterParameters :: "Externals \<Rightarrow> Selection \<Rightarrow> real \<Rightarrow> Observer \<Rightarrow> Observer" where
  "computeCenterParameters E destination centerTime ob =
     (let targetPosition = selGetPosition E destination (getTime ob);
          from_u = getPosition ob;
          to_u = from_u;
          up = qrot (conjugate (getOrientation ob)) UnitY;
          focus = offsetFromKm targetPosition to_u;
          j = (journey ob)
                \<lparr>duration := centerTime,
                 startTime := realTime ob,
                 traj := Linear,
                 jfrom := from_u,
                 jto := to_u,
                 initialOrientation := getOrientation ob,
                 finalOrientation := LookAt E Zero3 focus up,
                 startInterpolation := 0,
                 endInterpolation := 1,
                 accelTime := 0.5,
                 expFactor := 0\<rparr>
      in journeyToFrame E (ob\<lparr>journey := j\<rparr>))"

definition computeCenterCOParameters :: "Externals \<Rightarrow> Selection \<Rightarrow> real \<Rightarrow> Observer \<Rightarrow> Observer" where
  "computeCenterCOParameters E destination centerTime ob =
     (let v = normalized (offsetFromKm (selGetPosition E destination (getTime ob)) (getPosition ob));
          w = qrot (conjugate (getOrientation ob)) (vneg UnitZ);
          centerObj = getRefObject (getFrame ob);
          centerPos = selGetPosition E centerObj (getTime ob);
          q = setFromTwoVectors E v w;
          j = (journey ob)
                \<lparr>duration := centerTime,
                 startTime := realTime ob,
                 traj := CircularOrbit,
                 centerObject := getRefObject (getFrame ob),
                 expFactor := 0.5,
                 jfrom := getPosition ob,
                 jto := offsetKm centerPos (qrot (conjugate q) (offsetFromKm (getPosition ob) centerPos)),
                 initialOrientation := getOrientation ob,
                 finalOrientation := qmul (getOrientation ob) q,
                 startInterpolation := 0.0,
                 endInterpolation := 1.0,
                 rotation1 := q\<rparr>
      in journeyToFrame E (ob\<lparr>journey := j\<rparr>))"

subsection \<open>Preferred and orbit distances\<close>

text \<open>Modelled from the spec: the unit conversions of \<^verbatim>\<open>astro\<close>, which are not part of
  \<^verbatim>\<open>observer.cpp\<close>: kilometres in a light-year and in an astronomical unit.\<close>

definition lightYearsToKilometers :: "real \<Rightarrow> real" where
  "lightYearsToKilometers ly = ly * 9460730472580.8"

definition AUtoKilometers :: "real \<Rightarrow> real" where
  "AUtoKilometers au = au * 149597870.7"

text \<open>The \<^verbatim>\<open>std::accumulate\<close> over the orbiting stars: the largest bounding radius of their
  orbits.\<close>

definition maxOrbitRadiusOf :: "Star list option \<Rightarrow> real" where
  "maxOrbitRadiusOf orbitingStars =
     (case orbitingStars of
        None \<Rightarrow> 0.0
      | Some stars \<Rightarrow>
          foldl (\<lambda>r s. case getOrbit s of None \<Rightarrow> r | Some b \<Rightarrow> max r b) 0.0 stars)"

function getPreferredDistance :: "Externals \<Rightarrow> Selection \<Rightarrow> real" where
  "getPreferredDistance E Type_Nil = 1.0"
| "getPreferredDistance E (Type_Body b) =
     (if getClassification b = Invisible
      then (let r = (case getFrameTree b of None \<Rightarrow> getRadius b | Some bound \<Rightarrow> bound)
            in min (lightYearsToKilometers 0.1) (r * 5.0))
      else 5.0 * selRadius E (Type_Body b))"
| "getPreferredDistance E (Type_DeepSky d) = 5.0 * selRadius E (Type_DeepSky d)"
| "getPreferredDistance E (Type_Star s) =
     (if getVisibility s then 100.0 * selRadius E (Type_Star s)
      else (let maxOrbitRadius = maxOrbitRadiusOf (getOrbitingStars s)
            in if maxOrbitRadius = 0.0 then AUtoKilometers 1.0 else maxOrbitRadius * 5.0))"
| "getPreferredDistance E (Type_Location l) =
     (let maxDist = getPreferredDistance E (Selection_body (getParentBody l))
      in max (min (getSize l * 50.0) maxDist) 1.0)"
  by pat_completeness auto
termination
  by (relation "measure (\<lambda>(E, s). case s of Type_Location _ \<Rightarrow> 1 | _ \<Rightarrow> 0)")
     (auto simp: Selection_body_def split: option.splits)

definition getOrbitDistance :: "Externals \<Rightarrow> Selection \<Rightarrow> real \<Rightarrow> real" where
  "getOrbitDistance E selection currentDistance =
     (let maxDist = getPreferredDistance E selection;
          minDist = 1.01 * selRadius E selection;
          d = (if currentDistance > maxDist * 10.0 then maxDist else currentDistance * 0.1)
      in max d minDist)"

subsection \<open>Goto, center and follow operations\<close>

definition centerSelectionCO :: "Externals \<Rightarrow> Selection \<Rightarrow> real \<Rightarrow> Observer \<Rightarrow> Observer" where
  "centerSelectionCO E selection centerTime ob =
     (if \<not> empty_sel selection \<and> \<not> empty_sel (getRefObject (getFrame ob))
      then (computeCenterCOParameters E selection centerTime ob)\<lparr>observerMode := Travelling\<rparr>
      else ob)"

text \<open>\<^verbatim>\<open>Observer::orbit\<close>; \<open>a\<close> is the address of the frame object it allocates when it
  adopts the selection as the center.\<close>

definition orbit :: "Externals \<Rightarrow> nat \<Rightarrow> Selection \<Rightarrow> Quaterniond \<Rightarrow> Observer \<Rightarrow> Observer" where
  "orbit E a selection q ob =
     (let center0 = getRefObject (getFrame ob);
          adopt = (empty_sel center0 \<and> \<not> empty_sel selection);
          center = (if adopt then selection else center0);
          ob1 = (if adopt then setFrame2 E a (getCoordinateSystem (getFrame ob)) center ob else ob)
      in if \<not> empty_sel center
         then (let focusPosition = convertFromUniversal E (getFrame ob1)
                                     (selGetPosition E center (getTime ob1)) (getTime ob1);
                   v = offsetFromKm (position ob1) focusPosition;
                   qd = q;
                   qd2 = qnormalize (qmul (qmul (conjugate (orientation ob1)) qd) (orientation ob1));
                   distance = vnorm v;
                   v1 = qrot (conjugate qd2) v;
                   v2 = vscale (normalized v1) distance
               in updateUniversal E
                    (ob1\<lparr>orientation := qmul (orientation ob1) qd2,
                          position := offsetKm focusPosition v2\<rparr>))
         else ob1)"


text \<open>The overloads of \<^verbatim>\<open>Observer::gotoSelection\<close>: with the interpolation window and the
  acceleration time given (\<open>gotoSelection_interp\<close>), with the defaults (\<open>gotoSelection\<close>),
  and with the distance given (\<open>gotoSelection_dist\<close>). The first computes the offset of
  the destination as \<^verbatim>\<open>v * -(orbitDistance / distance)\<close> with no guard on the distance: when
  the observer is at the position of the selection, \<open>v\<close> is the zero vector, the quotient
  is infinite or a NaN, and the offset is a vector of NaNs.\<close>

definition gotoSelection_interp ::
  "Externals \<Rightarrow> nat \<Rightarrow> Selection \<Rightarrow> real \<Rightarrow> real \<Rightarrow> real \<Rightarrow> real \<Rightarrow> Vector3d \<Rightarrow> CoordinateSystem
     \<Rightarrow> Observer \<Rightarrow> Observer" where
  "gotoSelection_interp E a selection gotoTime startInter endInter accel up upFrame ob =
     (if \<not> empty_sel selection
      then (let pos = selGetPosition E selection (getTime ob);
                v = offsetFromKm pos (getPosition ob);
                distance = vnorm v;
                orbitDistance = getOrbitDistance E selection distance;
                offset = (if distance = 0 then notANumber E
                          else vscale v (- (orbitDistance / distance)))
            in (computeGotoParameters E a selection gotoTime startInter endInter accel
                  offset Universal up upFrame ob)
               \<lparr>observerMode := Travelling\<rparr>)
      else ob)"

definition gotoSelection ::
  "Externals \<Rightarrow> nat \<Rightarrow> Selection \<Rightarrow> real \<Rightarrow> Vector3d \<Rightarrow> CoordinateSystem \<Rightarrow> Observer \<Rightarrow> Observer" where
  "gotoSelection E a selection gotoTime up upFrame ob =
     gotoSelection_interp E a selection gotoTime 0.0 0.5 AccelerationTime up upFrame ob"

definition gotoSelection_dist ::
  "Externals \<Rightarrow> nat \<Rightarrow> Selection \<Rightarrow> real \<Rightarrow> real \<Rightarrow> Vector3d \<Rightarrow> CoordinateSystem \<Rightarrow> Observer \<Rightarrow> Observer" where
  "gotoSelection_dist E a selection gotoTime distance up upFrame ob =
     (if \<not> empty_sel selection
      then (let pos = selGetPosition E selection (getTime ob);
                v = normalized (offsetFromKm pos (getPosition ob))
            in (computeGotoParameters E a selection gotoTime
                  StartInterpolation EndInterpolation AccelerationTime
                  (vscale v (- distance)) Universal up upFrame ob)
               \<lparr>observerMode := Travelling\<rparr>)
      else ob)"

text \<open>\<^verbatim>\<open>Observer::gotoSelectionGC\<close>, which follows a great circle around the parent of the
  selection. Its offset \<^verbatim>\<open>v * (orbitDistance / distanceToCenter)\<close> is unguarded in the same
  way: at the distance zero from the center it is a vector of NaNs.\<close>

definition gotoSelectionGC ::
  "Externals \<Rightarrow> nat \<Rightarrow> Selection \<Rightarrow> real \<Rightarrow> Vector3d \<Rightarrow> CoordinateSystem \<Rightarrow> Observer \<Rightarrow> Observer" where
  "gotoSelectionGC E a selection gotoTime up upFrame ob =
     (if \<not> empty_sel selection
      then (let centerObj = selParent E selection;
                pos = selGetPosition E selection (getTime ob);
                v = offsetFromKm pos (selGetPosition E centerObj (getTime ob));
                distanceToCenter = vnorm v;
                viewVec = offsetFromKm pos (getPosition ob);
                orbitDistance0 = getOrbitDistance E selection (vnorm viewVec);
                orbitDistance =
                  (if location selection \<noteq> None
                   then (let parent = selParent E selection;
                             maintainDist = getPreferredDistance E parent;
                             parentPos = offsetFromKm (selGetPosition E parent (getTime ob)) (getPosition ob);
                             parentDist = vnorm parentPos - selRadius E parent
                         in if parentDist \<le> maintainDist \<and> parentDist > orbitDistance0
                            then parentDist else orbitDistance0)
                   else orbitDistance0);
                offset = (if distanceToCenter = 0 then notANumber E
                          else vscale v (orbitDistance / distanceToCenter))
            in (computeGotoParametersGC E a selection gotoTime
                  offset Universal up upFrame centerObj ob)
               \<lparr>observerMode := Travelling\<rparr>)
      else ob)"

definition gotoSelectionGC_dist ::
  "Externals \<Rightarrow> nat \<Rightarrow> Selection \<Rightarrow> real \<Rightarrow> real \<Rightarrow> Vector3d \<Rightarrow> CoordinateSystem \<Rightarrow> Observer \<Rightarrow> Observer" where
  "gotoSelectionGC_dist E a selection gotoTime distance up upFrame ob =
     (if \<not> empty_sel selection
      then (let centerObj = selParent E selection;
                pos = selGetPosition E selection (getTime ob);
                v = normalized (offsetFromKm pos (selGetPosition E centerObj (getTime ob)))
            in (computeGotoParametersGC E a selection gotoTime
                  (vscale v (- distance)) Universal up upFrame centerObj ob)
               \<lparr>observerMode := Travelling\<rparr>)
      else ob)"

definition gotoSelectionLongLat ::
  "Externals \<Rightarrow> nat \<Rightarrow> Selection \<Rightarrow> real \<Rightarrow> real \<Rightarrow> real \<Rightarrow> real \<Rightarrow> Vector3d \<Rightarrow> Observer \<Rightarrow> Observer" where
  "gotoSelectionLongLat E a selection gotoTime distance longitude latitude up ob =
     (if \<not> empty_sel selection
      then (let phi = - latitude + pi / 2.0;
                theta = longitude;
                x = cos theta * sin phi;
                y = cos phi;
                z = - sin theta * sin phi
            in (computeGotoParameters E a selection gotoTime
                  StartInterpolation EndInterpolation AccelerationTime
                  (vscale (Vector3d x y z) distance) BodyFixed up BodyFixed ob)
               \<lparr>observerMode := Travelling\<rparr>)
      else ob)"

definition gotoLocation :: "UniversalCoord \<Rightarrow> Quaterniond \<Rightarrow> real \<Rightarrow> Observer \<Rightarrow> Observer" where
  "gotoLocation toPosition toOrientation dur ob =
     (let distance = vnorm (offsetFromKm (position ob) toPosition) / 2.0;
          j = (journey ob)
                \<lparr>startTime := realTime ob,
                 duration := dur,
                 jfrom := position ob,
                 initialOrientation := orientation ob,
                 jto := toPosition,
                 finalOrientation := toOrientation,
                 startInterpolation := StartInterpolation,
                 endInterpolation := EndInterpolation,
                 accelTime := AccelerationTime,
                 expFactor := solveExpFactor distance AccelerationTime\<rparr>
      in ob\<lparr>journey := j, observerMode := Travelling\<rparr>)"

definition gotoSurface :: "Externals \<Rightarrow> Selection \<Rightarrow> real \<Rightarrow> Observer \<Rightarrow> Observer" where
  "gotoSurface E sel dur ob =
     (let v = normalized (offsetFromKm (getPosition ob) (selGetPosition E sel (getTime ob)));
          viewDir = qrot (conjugate (orientationUniv ob)) (vneg UnitZ);
          up = qrot (conjugate (orientationUniv ob)) UnitY;
          q = (if dot v viewDir < 0.0 then LookAt E Zero3 up v else orientationUniv ob);
          bodyFixed = ObserverFrame_new E BodyFixed sel Type_Nil;
          bfPos = convertFromUniversal E bodyFixed (positionUniv ob) (getTime ob);
          q' = convertFromUniversalQ E bodyFixed q (getTime ob);
          height = 1.0001 * selRadius E sel;
          dir = vscale (normalized (offsetFromKm bfPos ucZero)) height;
          nearSurfacePoint = offsetKm ucZero dir
      in gotoLocation nearSurfacePoint q' dur ob)"

definition cancelMotion :: "Observer \<Rightarrow> Observer" where
  "cancelMotion ob = ob\<lparr>observerMode := Free\<rparr>"

definition centerSelection :: "Externals \<Rightarrow> Selection \<Rightarrow> real \<Rightarrow> Observer \<Rightarrow> Observer" where
  "centerSelection E selection centerTime ob =
     (if \<not> empty_sel selection
      then (computeCenterParameters E selection centerTime ob)\<lparr>observerMode := Travelling\<rparr>
      else ob)"

definition follow :: "Externals \<Rightarrow> nat \<Rightarrow> Selection \<Rightarrow> Observer \<Rightarrow> Observer" where
  "follow E a selection ob = setFrame2 E a Ecliptical selection ob"

definition geosynchronousFollow :: "Externals \<Rightarrow> nat \<Rightarrow> Selection \<Rightarrow> Observer \<Rightarrow> Observer" where
  "geosynchronousFollow E a selection ob =
     (if body selection \<noteq> None \<or> location selection \<noteq> None \<or> star selection \<noteq> None
      then setFrame2 E a BodyFixed selection ob
      else ob)"

definition chase :: "Externals \<Rightarrow> nat \<Rightarrow> Selection \<Rightarrow> Observer \<Rightarrow> Observer" where
  "chase E a selection ob =
     (if body selection \<noteq> None \<or> star selection \<noteq> None
      then setFrame2 E a Chase selection ob
      else ob)"

subsection \<open>Sequences of calls\<close>

text \<open>The calls that move the observer or change its frame, and a sequence of them run
  from left to right.\<close>

datatype ObserverCall =
    SetPosition UniversalCoord
  | SetOrientation Quaterniond
  | Update real real
  | SetFrame3 nat CoordinateSystem Selection Selection
  | SetFrame2 nat CoordinateSystem Selection
  | SetFramePtr ObserverFramePtr

fun call :: "Externals \<Rightarrow> ObserverCall \<Rightarrow> Observer \<Rightarrow> Observer" where
  "call E (SetPosition p) ob = setPosition E p ob"
| "call E (SetOrientation q) ob = setOrientation E q ob"
| "call E (Update dt timeScale) ob = update E dt timeScale ob"
| "call E (SetFrame3 a cs refObj targetObj) ob = setFrame3 E a cs refObj targetObj ob"
| "call E (SetFrame2 a cs refObj) ob = setFrame2 E a cs refObj ob"
| "call E (SetFramePtr f) ob = setFrame_ptr E f ob"

fun calls :: "Externals \<Rightarrow> ObserverCall list \<Rightarrow> Observer \<Rightarrow> Observer" where
  "calls E [] ob = ob"
| "calls E (c # cs) ob = calls E cs (call E c ob)"

text \<open>The coordinates that \<^verbatim>\<open>setPosition\<close> is given in a sequence of calls.\<close>

fun positionsSet :: "ObserverCall list \<Rightarrow> UniversalCoord list" where
  "positionsSet [] = []"
| "positionsSet (SetPosition p # cs) = p # positionsSet cs"
| "positionsSet (_ # cs) = positionsSet cs"

text \<open>The two ways in which the frame-local and the universal position agree: forwards,
  after \<^verbatim>\<open>updateUniversal\<close> has committed the position, and backwards, after the position
  was computed from the universal one. Likewise for the orientation.\<close>

definition positionForward :: "Externals \<Rightarrow> Observer \<Rightarrow> bool" where
  "positionForward E ob \<longleftrightarrow>
     convertToUniversal E (getFrame ob) (position ob) (simTime ob) = positionUniv ob"

definition positionBackward :: "Externals \<Rightarrow> Observer \<Rightarrow> bool" where
  "positionBackward E ob \<longleftrightarrow>
     position ob = convertFromUniversal E (getFrame ob) (positionUniv ob) (simTime ob)"

definition orientationForward :: "Externals \<Rightarrow> Observer \<Rightarrow> bool" where
  "orientationForward E ob \<longleftrightarrow>
     convertToUniversalQ E (getFrame ob) (orientation ob) (simTime ob) = orientationUniv ob"

definition orientationBackward :: "Externals \<Rightarrow> Observer \<Rightarrow> bool" where
  "orientationBackward E ob \<longleftrightarrow>
     orientation ob = convertFromUniversalQ E (getFrame ob) (orientationUniv ob) (simTime ob)"

definition synchronized :: "Externals \<Rightarrow> Observer \<Rightarrow> bool" where
  "synchronized E ob \<longleftrightarrow>
     (positionForward E ob \<or> positionBackward E ob)
     \<and> (orientationForward E ob \<or> orientationBackward E ob)"

text \<open>The frame round trip of the spec, in exact arithmetic: converting to universal
  coordinates and back, or from them and back, gives the value again, for every frame and
  time.\<close>

definition roundTrip :: "Externals \<Rightarrow> bool" where
  "roundTrip E \<longleftrightarrow>
     (\<forall>f p t. rfFromUniversal E f (rfToUniversal E f p t) t = p)
     \<and> (\<forall>f p t. rfToUniversal E f (rfFromUniversal E f p t) t = p)
     \<and> (\<forall>f q t. rfFromUniversalQ E f (rfToUniversalQ E f q t) t = q)
     \<and> (\<forall>f q t. rfToUniversalQ E f (rfFromUniversalQ E f q t) t = q)"

subsection \<open>Notions the statements use\<close>

text \<open>The state of \<^verbatim>\<open>Observer::update\<close> just before \<^verbatim>\<open>updateUniversal\<close> runs.\<close>

definition beforeUniversal :: "Externals \<Rightarrow> real \<Rightarrow> real \<Rightarrow> Observer \<Rightarrow> Observer" where
  "beforeUniversal E dt timeScale ob =
     (let ob4 = advanceTime dt timeScale ob;
          ob5 = (if observerMode ob4 = Travelling then updateTravelling E ob4 else ob4);
          ob6 = (if getVelocity ob5 \<noteq> targetVelocity ob5 then updateVelocity ob5 else ob5);
          ob7 = ob6\<lparr>position := offsetKm (position ob6) (vscale (getVelocity ob6) dt)\<rparr>
      in if observerMode ob7 = Free then updateFree dt ob7 else ob7)"

text \<open>The tick on which a journey that is not a circular orbit ends, for an observer with
  no target velocity and no tracked object.\<close>

definition arrived :: "real \<Rightarrow> real \<Rightarrow> Observer \<Rightarrow> Observer" where
  "arrived dt timeScale ob =
     (advanceTime dt timeScale ob)
       \<lparr>position := jto (journey ob), orientation := finalOrientation (journey ob),
        observerMode := Free, velocity := Zero3\<rparr>"

text \<open>The frame \<^verbatim>\<open>Observer::orbit\<close> works in and the center it turns about: the selection is
  adopted as the center when the frame has none.\<close>

definition orbitCenter :: "Selection \<Rightarrow> Observer \<Rightarrow> Selection" where
  "orbitCenter selection ob =
     (if empty_sel (getRefObject (getFrame ob)) \<and> \<not> empty_sel selection
      then selection else getRefObject (getFrame ob))"

definition orbitStart :: "Externals \<Rightarrow> nat \<Rightarrow> Selection \<Rightarrow> Observer \<Rightarrow> Observer" where
  "orbitStart E a selection ob =
     (if empty_sel (getRefObject (getFrame ob)) \<and> \<not> empty_sel selection
      then setFrame2 E a (getCoordinateSystem (getFrame ob)) selection ob else ob)"

definition orbitFocus :: "Externals \<Rightarrow> nat \<Rightarrow> Selection \<Rightarrow> Observer \<Rightarrow> UniversalCoord" where
  "orbitFocus E a selection ob =
     convertFromUniversal E (getFrame (orbitStart E a selection ob))
       (selGetPosition E (orbitCenter selection ob) (getTime ob)) (getTime ob)"

text \<open>Modelled from the spec: the inertial J2000 ecliptic frame anchored at a center keeps the
  universal axes, so it converts a position by translating it to or from the position of the
  center at that time. The classes of \<^verbatim>\<open>frame.h\<close> are not part of \<^verbatim>\<open>observer.cpp\<close>; this is
  what a statement assumes of the environment when it needs it.\<close>

definition translationFrame :: "Externals \<Rightarrow> Selection \<Rightarrow> bool" where
  "translationFrame E c \<longleftrightarrow>
     (\<forall>p t. rfToUniversal E (J2000EclipticFrame c) p t =
              offsetKm p (offsetFromKm (selGetPosition E c t) ucZero))
     \<and> (\<forall>p t. rfFromUniversal E (J2000EclipticFrame c) p t =
              offsetKm p (offsetFromKm ucZero (selGetPosition E c t)))"

text \<open>What a goto to a selection leaves behind: the frame built from a tag and the
  selection at the address \<open>a\<close>, the universal position and orientation of before, and the
  mode \<^verbatim>\<open>Travelling\<close>.\<close>

definition gotoFrame :: "Externals \<Rightarrow> nat \<Rightarrow> CoordinateSystem \<Rightarrow> Selection \<Rightarrow> Observer \<Rightarrow> Observer \<Rightarrow> bool" where
  "gotoFrame E a cs sel ob ob' \<longleftrightarrow>
     frame ob' = (a, ObserverFrame_new E cs sel Type_Nil)
     \<and> getPosition ob' = getPosition ob
     \<and> getOrientation ob' = getOrientation ob
     \<and> getMode ob' = Travelling"

subsection \<open>A sample environment\<close>

text \<open>An environment on which the statements below are run: every frame is a translation
  to its center, as a J2000 ecliptic frame is, bodies sit on the x axis and stars on the y
  axis, and narrowing to \<^verbatim>\<open>float\<close> loses nothing. The zero vector is put in the place of
  the vector of NaNs, which none of the sample states reaches.\<close>

definition samplePosition :: "Selection \<Rightarrow> UniversalCoord" where
  "samplePosition s =
     (case s of
        Type_Body b \<Rightarrow> UniversalCoord (real (bodyIndex b)) 0 0
      | Type_Star st \<Rightarrow> UniversalCoord 0 (real (starIndex st)) 0
      | _ \<Rightarrow> ucZero)"

definition sampleRadius :: "Selection \<Rightarrow> real" where
  "sampleRadius s = (case s of Type_Body b \<Rightarrow> getRadius b | _ \<Rightarrow> 0)"

definition sampleParent :: "Selection \<Rightarrow> Selection" where
  "sampleParent s = (case s of Type_Location l \<Rightarrow> Selection_body (getParentBody l) | _ \<Rightarrow> Type_Nil)"

definition sampleExternals :: Externals where
  "sampleExternals =
     \<lparr>isOutOfBounds = (\<lambda>p. \<bar>ux p\<bar> > 10 ^ 15 \<or> \<bar>uy p\<bar> > 10 ^ 15 \<or> \<bar>uz p\<bar> > 10 ^ 15),
      rfToUniversal = (\<lambda>f p t. offsetKm p (offsetFromKm (samplePosition (getCenter f)) ucZero)),
      rfFromUniversal = (\<lambda>f p t. offsetKm p (offsetFromKm ucZero (samplePosition (getCenter f)))),
      rfToUniversalQ = (\<lambda>f q t. q),
      rfFromUniversalQ = (\<lambda>f q t. q),
      rfGetOrientation = (\<lambda>f t. qIdentity),
      selGetPosition = (\<lambda>s t. samplePosition s),
      selRadius = sampleRadius,
      selParent = sampleParent,
      LookAt = (\<lambda>eye center up. qIdentity),
      qslerp = (\<lambda>q0 t q1. if t < 1 then q0 else q1),
      setFromTwoVectors = (\<lambda>v w. qIdentity),
      toFloat = (\<lambda>x. x),
      notANumber = Vector3d 0 0 0\<rparr>"

definition sampleJourney :: JourneyParams where
  "sampleJourney =
     \<lparr>duration = 0, startTime = 0, jfrom = ucZero, jto = ucZero,
      initialOrientation = qIdentity, finalOrientation = qIdentity,
      startInterpolation = 0, endInterpolation = 0, expFactor = 0, accelTime = 0,
      rotation1 = qIdentity, centerObject = Type_Nil, traj = Linear\<rparr>"

text \<open>\<^verbatim>\<open>Observer::Observer()\<close>: the member initializers of \<^verbatim>\<open>observer.h\<close>, a default frame at
  the address \<open>a\<close>, and \<^verbatim>\<open>updateUniversal\<close>. The members without an initializer get the
  values \<open>j0\<close>, \<open>p0\<close> and \<open>q0\<close>.\<close>

definition Observer_init ::
  "Externals \<Rightarrow> nat \<Rightarrow> JourneyParams \<Rightarrow> UniversalCoord \<Rightarrow> Quaterniond \<Rightarrow> Observer" where
  "Observer_init E a j0 p0 q0 =
     updateUniversal E
       \<lparr>simTime = 0.0,
        position = UniversalCoord 0.0 0.0 0.0,
        orientation = qIdentity,
        velocity = Zero3,
        angularVelocity = Zero3,
        positionUniv = p0,
        orientationUniv = q0,
        frame = (a, ObserverFrame_default E),
        realTime = 0.0,
        targetSpeed = 0.0,
        targetVelocity = Zero3,
        initialVelocity = Zero3,
        beginAccelTime = 0.0,
        observerMode = Free,
        journey = j0,
        trackObject = Type_Nil,
        trackingOrientation = qIdentity,
        fov = pi / 4.0,
        reverseFlag = False,
        locationFilter = 2 ^ 64 - 1,
        displayedSurface = []\<rparr>"

definition sampleObserver :: Observer where
  "sampleObserver = Observer_init sampleExternals 0 sampleJourney ucZero qIdentity"

text \<open>A body of radius 6371 km, a million kilometres from the origin.\<close>

definition sampleBody :: Body where
  "sampleBody = Body 1000000 (OtherClassification 0) 6371 None None"

text \<open>The scenario of the spec: the observer at the universal origin, in the ecliptical
  frame of the body, told to go to the body in five seconds; and the same after a target
  speed of one kilometre per second was set.\<close>

definition sampleFollowing :: Observer where
  "sampleFollowing = setFrame2 sampleExternals 1 Ecliptical (Type_Body sampleBody) sampleObserver"

definition sampleGoto :: Observer where
  "sampleGoto = gotoSelection sampleExternals 2 (Type_Body sampleBody) 5 UnitY Universal sampleFollowing"


text \<open>A coordinate beyond the bounds of the sample environment.\<close>

definition sampleFarAway :: UniversalCoord where
  "sampleFarAway = UniversalCoord (2 * 10 ^ 15) 0 0"


section \<open>Properties\<close>

subsection \<open>Vectors, quaternions and coordinates\<close>

lemma squaredNorm_nonneg: "0 \<le> squaredNorm v"
  by (simp add: squaredNorm_def dot_def)

lemma vnorm_nonneg: "0 \<le> vnorm v"
  by (simp add: vnorm_def squaredNorm_nonneg)

lemma vnorm_vscale: "vnorm (vscale v c) = \<bar>c\<bar> * vnorm v"
proof -
  have "squaredNorm (vscale v c) = c\<^sup>2 * squaredNorm v"
    by (simp add: squaredNorm_def dot_def vscale_def power2_eq_square algebra_simps)
  then show ?thesis
    by (simp add: vnorm_def real_sqrt_mult)
qed

lemma vnorm_x_axis: "vnorm (Vector3d x 0 0) = \<bar>x\<bar>"
  by (simp add: vnorm_def squaredNorm_def dot_def)

lemma offset_roundtrip: "offsetFromKm (offsetKm p v) p = v"
  by (cases v) (simp add: offsetFromKm_def offsetKm_def)

lemma qrot_conj_identity: "qrot (conjugate qIdentity) v = v"
  by (cases v)
     (simp add: qrot_def conjugate_def qIdentity_def qvec_def cross_def vadd_def vscale_def Let_def)

lemma offsetKm_zero_scaled: "offsetKm p (vscale Zero3 c) = p"
  by (cases p) (simp add: offsetKm_def vscale_def Zero3_def)

lemma translation_there_and_back:
  "offsetFromKm p1
     (offsetKm (offsetKm (offsetKm p0 off) (offsetFromKm ucZero p0)) (offsetFromKm p1 ucZero))
   = vneg off"
  by (cases p0; cases p1; cases off) (simp add: offsetFromKm_def offsetKm_def ucZero_def vneg_def)

lemma vnorm_vneg: "vnorm (vneg v) = vnorm v"
  by (simp add: vnorm_def squaredNorm_def dot_def vneg_def)

lemma normalized_unit:
  assumes "vnorm v \<noteq> 0"
  shows "vnorm (normalized v) = 1"
proof -
  have pos: "0 < squaredNorm v"
    using assms squaredNorm_nonneg [of v] by (cases "squaredNorm v = 0") (auto simp add: vnorm_def)
  have "normalized v = vscale v (1 / sqrt (squaredNorm v))"
    using pos by (simp add: normalized_def vdiv_def vscale_def)
  then show ?thesis
    using pos by (simp add: vnorm_vscale) (simp add: vnorm_def)
qed


lemma qIdentity_unit: "qSquaredNorm qIdentity = 1"
  by (simp add: qSquaredNorm_def qIdentity_def)

lemma qrot_unit:
  assumes "qSquaredNorm q = 1"
  shows "squaredNorm (qrot q v) = squaredNorm v"
proof -
  obtain w x y z where q: "q = Quaterniond w x y z" by (cases q)
  obtain a b c where v: "v = Vector3d a b c" by (cases v)
  have n: "w * w + x * x + y * y + z * z = 1"
    using assms by (simp add: q qSquaredNorm_def)
  have "squaredNorm (qrot q v) - squaredNorm v =
        4 * (w * w + x * x + y * y + z * z - 1) *
          ((y * c - z * b) * (y * c - z * b) + (z * a - x * c) * (z * a - x * c)
            + (x * b - y * a) * (x * b - y * a))"
    by (simp add: q v qrot_def Let_def qvec_def cross_def vadd_def vscale_def squaredNorm_def dot_def
        algebra_simps)
  then show ?thesis
    using n by simp
qed

lemma qnormalize_unit_or_zero:
  "qSquaredNorm (qnormalize p) = 1 \<or> qnormalize p = Quaterniond 0 0 0 0"
proof (cases "qSquaredNorm p > 0")
  case True
  define n where "n = sqrt (qSquaredNorm p)"
  have n2: "n * n = qSquaredNorm p" and npos: "n \<noteq> 0"
    using True by (simp_all add: n_def)
  have "qSquaredNorm (Quaterniond (qw p / n) (qx p / n) (qy p / n) (qz p / n))
          = (qw p * qw p + qx p * qx p + qy p * qy p + qz p * qz p) / (n * n)"
    by (simp add: qSquaredNorm_def add_divide_distrib)
  also have "\<dots> = 1"
    using n2 True by (simp add: qSquaredNorm_def)
  finally have "qSquaredNorm (qnormalize p) = 1"
    using True by (simp add: qnormalize_def Let_def n_def)
  then show ?thesis by simp
next
  case False
  obtain w x y z where p: "p = Quaterniond w x y z" by (cases p)
  have "w * w + x * x + y * y + z * z \<le> 0"
    using False by (simp add: p qSquaredNorm_def)
  moreover have "0 \<le> w * w" "0 \<le> x * x" "0 \<le> y * y" "0 \<le> z * z" by simp_all
  ultimately have "w * w = 0" "x * x = 0" "y * y = 0" "z * z = 0" by linarith+
  then have "p = Quaterniond 0 0 0 0" by (simp add: p)
  with False show ?thesis by (simp add: qnormalize_def)
qed

lemma qSquaredNorm_conjugate: "qSquaredNorm (conjugate q) = qSquaredNorm q"
  by (simp add: qSquaredNorm_def conjugate_def)

lemma qrot_zero: "qrot (conjugate (Quaterniond 0 0 0 0)) v = v"
  by (cases v) (simp add: qrot_def conjugate_def qvec_def cross_def vadd_def vscale_def Let_def)

lemma qrot_normalized_norm: "vnorm (qrot (conjugate (qnormalize p)) v) = vnorm v"
  using qnormalize_unit_or_zero [of p]
  by (auto simp add: vnorm_def qrot_unit qSquaredNorm_conjugate qrot_zero)

lemma rescaled_norm:
  assumes "vnorm v1 = d"
  shows "vnorm (vscale (normalized v1) d) = d"
proof (cases "squaredNorm v1 > 0")
  case True
  then have "vnorm v1 \<noteq> 0" by (simp add: vnorm_def)
  then have "vnorm (normalized v1) = 1" by (rule normalized_unit)
  moreover have "0 \<le> d" using assms vnorm_nonneg [of v1] by simp
  ultimately show ?thesis by (simp add: vnorm_vscale)
next
  case False
  then have "d = 0" using assms squaredNorm_nonneg [of v1] by (simp add: vnorm_def)
  then show ?thesis by (simp add: vnorm_vscale)
qed

subsection \<open>Bisection\<close>





subsection \<open>What the frame switch and the journey set-up keep\<close>

lemma journeyToFrame_keeps:
  "frame (journeyToFrame E ob) = frame ob"
  "positionUniv (journeyToFrame E ob) = positionUniv ob"
  "orientationUniv (journeyToFrame E ob) = orientationUniv ob"
  "position (journeyToFrame E ob) = position ob"
  "orientation (journeyToFrame E ob) = orientation ob"
  "observerMode (journeyToFrame E ob) = observerMode ob"
  by (simp_all add: journeyToFrame_def Let_def)

lemma setFrame3_keeps:
  "frame (setFrame3 E a cs r t ob) = (a, ObserverFrame_new E cs r t)"
  "positionUniv (setFrame3 E a cs r t ob) = positionUniv ob"
  "orientationUniv (setFrame3 E a cs r t ob) = orientationUniv ob"
  "simTime (setFrame3 E a cs r t ob) = simTime ob"
  by (simp_all add: setFrame3_def convertFrameCoordinates_def Let_def)

lemma setFrame3_keeps2:
  "realTime (setFrame3 E a cs r t ob) = realTime ob"
  "targetVelocity (setFrame3 E a cs r t ob) = targetVelocity ob"
  "trackObject (setFrame3 E a cs r t ob) = trackObject ob"
  by (simp_all add: setFrame3_def convertFrameCoordinates_def Let_def)

lemma computeGotoParameters_frame:
  "frame (computeGotoParameters E a dest gotoTime si ei acc off ocs up ucs ob) =
     (a, ObserverFrame_new E (if getCoordinateSystem (getFrame ob) = PhaseLock then Ecliptical
                              else getCoordinateSystem (getFrame ob)) dest Type_Nil)"
  "positionUniv (computeGotoParameters E a dest gotoTime si ei acc off ocs up ucs ob) = positionUniv ob"
  "orientationUniv (computeGotoParameters E a dest gotoTime si ei acc off ocs up ucs ob) = orientationUniv ob"
  by (simp_all add: computeGotoParameters_def Let_def journeyToFrame_keeps setFrame2_def setFrame3_keeps)

lemma computeGotoParametersGC_frame:
  "frame (computeGotoParametersGC E a dest gotoTime off ocs up ucs c ob) =
     (a, ObserverFrame_new E (getCoordinateSystem (getFrame ob)) dest Type_Nil)"
  "positionUniv (computeGotoParametersGC E a dest gotoTime off ocs up ucs c ob) = positionUniv ob"
  "orientationUniv (computeGotoParametersGC E a dest gotoTime off ocs up ucs c ob) = orientationUniv ob"
  by (simp_all add: computeGotoParametersGC_def Let_def journeyToFrame_keeps setFrame2_def setFrame3_keeps)

lemma computeGotoParameters_jto:
  assumes "ocs \<noteq> ObserverLocal"
  shows "jto (journey (computeGotoParameters E a dest gotoTime si ei acc off ocs up ucs ob)) =
     convertFromUniversal E
       (ObserverFrame_new E (if getCoordinateSystem (getFrame ob) = PhaseLock then Ecliptical
                              else getCoordinateSystem (getFrame ob)) dest Type_Nil)
       (offsetKm (selGetPosition E dest (simTime ob))
          (qrot (frameOrientationConj E ocs dest (simTime ob)) off)) (simTime ob)"
  using assms
  by (simp add: computeGotoParameters_def Let_def journeyToFrame_def setFrame2_def setFrame3_keeps
      getFrame_def getTime_def)

lemma computeGotoParameters_keeps:
  "realTime (computeGotoParameters E a dest gotoTime si ei acc off ocs up ucs ob) = realTime ob"
  "simTime (computeGotoParameters E a dest gotoTime si ei acc off ocs up ucs ob) = simTime ob"
  "targetVelocity (computeGotoParameters E a dest gotoTime si ei acc off ocs up ucs ob) = targetVelocity ob"
  "trackObject (computeGotoParameters E a dest gotoTime si ei acc off ocs up ucs ob) = trackObject ob"
  by (simp_all add: computeGotoParameters_def Let_def journeyToFrame_def setFrame2_def setFrame3_keeps
      setFrame3_keeps2)

lemma computeGotoParameters_journey:
  "duration (journey (computeGotoParameters E a dest gotoTime si ei acc off ocs up ucs ob)) = gotoTime"
  "startTime (journey (computeGotoParameters E a dest gotoTime si ei acc off ocs up ucs ob)) = realTime ob"
  "traj (journey (computeGotoParameters E a dest gotoTime si ei acc off ocs up ucs ob)) = Linear"
  "startInterpolation (journey (computeGotoParameters E a dest gotoTime si ei acc off ocs up ucs ob)) = min si ei"
  "endInterpolation (journey (computeGotoParameters E a dest gotoTime si ei acc off ocs up ucs ob)) = max si ei"
  "accelTime (journey (computeGotoParameters E a dest gotoTime si ei acc off ocs up ucs ob)) = acc"
  by (simp_all add: computeGotoParameters_def Let_def journeyToFrame_def setFrame2_def setFrame3_keeps
      setFrame3_keeps2)

lemma gotoSelection_journey:
  assumes "\<not> empty_sel sel"
  shows "duration (journey (gotoSelection E a sel gotoTime up upFrame ob)) = gotoTime"
    "startTime (journey (gotoSelection E a sel gotoTime up upFrame ob)) = realTime ob"
    "traj (journey (gotoSelection E a sel gotoTime up upFrame ob)) = Linear"
    "startInterpolation (journey (gotoSelection E a sel gotoTime up upFrame ob)) = 0"
    "endInterpolation (journey (gotoSelection E a sel gotoTime up upFrame ob)) = 1 / 2"
    "accelTime (journey (gotoSelection E a sel gotoTime up upFrame ob)) = 1 / 2"
    "observerMode (gotoSelection E a sel gotoTime up upFrame ob) = Travelling"
    "realTime (gotoSelection E a sel gotoTime up upFrame ob) = realTime ob"
    "simTime (gotoSelection E a sel gotoTime up upFrame ob) = simTime ob"
    "targetVelocity (gotoSelection E a sel gotoTime up upFrame ob) = targetVelocity ob"
    "trackObject (gotoSelection E a sel gotoTime up upFrame ob) = trackObject ob"
    "frame (gotoSelection E a sel gotoTime up upFrame ob) =
       (a, ObserverFrame_new E (if getCoordinateSystem (getFrame ob) = PhaseLock then Ecliptical
                                else getCoordinateSystem (getFrame ob)) sel Type_Nil)"
  using assms
  by (simp_all add: gotoSelection_def gotoSelection_interp_def Let_def computeGotoParameters_journey
      computeGotoParameters_keeps computeGotoParameters_frame AccelerationTime_def)

lemma gotoSelection_interp_jto:
  assumes "\<not> empty_sel sel"
    and "rfGetOrientation E (J2000EclipticFrame Type_Nil) (simTime ob) = qIdentity"
    and "vnorm (offsetFromKm (selGetPosition E sel (simTime ob)) (getPosition ob)) \<noteq> 0"
  shows "jto (journey (gotoSelection_interp E a sel gotoTime si ei acc up upFrame ob)) =
     convertFromUniversal E (getFrame (gotoSelection_interp E a sel gotoTime si ei acc up upFrame ob))
       (offsetKm (selGetPosition E sel (simTime ob))
          (vscale (offsetFromKm (selGetPosition E sel (simTime ob)) (getPosition ob))
             (- (getOrbitDistance E sel
                   (vnorm (offsetFromKm (selGetPosition E sel (simTime ob)) (getPosition ob)))
                 / vnorm (offsetFromKm (selGetPosition E sel (simTime ob)) (getPosition ob))))))
       (simTime ob)"
  using assms
  by (simp add: gotoSelection_interp_def Let_def computeGotoParameters_jto getFrame_def
      getTime_def frameOrientationConj_def ObserverFrame_new_def createFrame_def qrot_conj_identity
      computeGotoParameters_frame getCoordinateSystem_def)

lemma gotoSelection_jto:
  assumes "\<not> empty_sel sel"
    and "rfGetOrientation E (J2000EclipticFrame Type_Nil) (simTime ob) = qIdentity"
    and "vnorm (offsetFromKm (selGetPosition E sel (simTime ob)) (getPosition ob)) \<noteq> 0"
  shows "jto (journey (gotoSelection E a sel gotoTime up upFrame ob)) =
     convertFromUniversal E (getFrame (gotoSelection E a sel gotoTime up upFrame ob))
       (offsetKm (selGetPosition E sel (simTime ob))
          (vscale (offsetFromKm (selGetPosition E sel (simTime ob)) (getPosition ob))
             (- (getOrbitDistance E sel
                   (vnorm (offsetFromKm (selGetPosition E sel (simTime ob)) (getPosition ob)))
                 / vnorm (offsetFromKm (selGetPosition E sel (simTime ob)) (getPosition ob))))))
       (simTime ob)"
  unfolding gotoSelection_def using assms by (rule gotoSelection_interp_jto)



subsection \<open>Ticks\<close>

lemma updateFree_still:
  "angularVelocity ob = Zero3 \<Longrightarrow> qSquaredNorm (orientation ob) = 1 \<Longrightarrow> updateFree dt ob = ob"
  by (cases "orientation ob")
     (simp add: updateFree_def Let_def getAngularVelocity_def vscale_def Zero3_def qmul_def
        qaddscaled_def qnormalize_def)

lemma updateFree_keeps:
  "position (updateFree dt ob) = position ob"
  "positionUniv (updateFree dt ob) = positionUniv ob"
  "frame (updateFree dt ob) = frame ob"
  "simTime (updateFree dt ob) = simTime ob"
  "observerMode (updateFree dt ob) = observerMode ob"
  "velocity (updateFree dt ob) = velocity ob"
  "trackObject (updateFree dt ob) = trackObject ob"
  by (simp_all add: updateFree_def Let_def)

lemma advanceTime_keeps:
  "realTime (advanceTime dt ts ob) = realTime ob + dt"
  "observerMode (advanceTime dt ts ob) = observerMode ob"
  "journey (advanceTime dt ts ob) = journey ob"
  "frame (advanceTime dt ts ob) = frame ob"
  "targetVelocity (advanceTime dt ts ob) = targetVelocity ob"
  "angularVelocity (advanceTime dt ts ob) = angularVelocity ob"
  "trackObject (advanceTime dt ts ob) = trackObject ob"
  "velocity (advanceTime dt ts ob) = velocity ob"
  "beginAccelTime (advanceTime dt ts ob) = beginAccelTime ob"
  "positionUniv (advanceTime dt ts ob) = positionUniv ob"
  by (simp_all add: advanceTime_def Let_def)

lemma journeyFraction_complete:
  assumes "duration (journey ob) > 0"
    and "realTime ob \<ge> startTime (journey ob) + duration (journey ob)"
    and "toFloat E 1 = 1"
  shows "journeyFraction E ob = 1"
proof -
  have "(realTime ob - startTime (journey ob)) / duration (journey ob) \<ge> 1"
    using assms(1,2) by (simp add: pos_le_divide_eq)
  then have "clamp ((realTime ob - startTime (journey ob)) / duration (journey ob)) 0 1 = 1"
    by (simp add: clamp_def)
  with assms show ?thesis
    by (simp add: journeyFraction_def Let_def)
qed

lemma updateTravelling_complete:
  assumes "journeyFraction E ob = 1" and "traj (journey ob) \<noteq> CircularOrbit"
  shows "updateTravelling E ob =
     ob\<lparr>position := jto (journey ob), orientation := finalOrientation (journey ob),
        observerMode := Free, velocity := Zero3\<rparr>"
  using assms by (simp add: updateTravelling_def Let_def setVelocity_def)

lemma update_simTime: "simTime (update E dt ts ob) = simTime (advanceTime dt ts ob)"
  by (simp add: update_def Let_def updateTravelling_def setVelocity_def updateVelocity_def
      updateFree_def updateUniversal_def updateTracking_def setOrientation_def)

lemma update_arrives:
  assumes "observerMode ob = Travelling"
    and "duration (journey ob) > 0"
    and "traj (journey ob) \<noteq> CircularOrbit"
    and "realTime ob + dt \<ge> startTime (journey ob) + duration (journey ob)"
    and "toFloat E 1 = 1"
    and "targetVelocity ob = Zero3"
    and "empty_sel (trackObject ob)"
  shows "update E dt timeScale ob = updateUniversal E (updateFree dt (arrived dt timeScale ob))"
proof -
  define ob4 where "ob4 = advanceTime dt timeScale ob"
  define ob5 where "ob5 = arrived dt timeScale ob"
  have frac: "journeyFraction E ob4 = 1"
    using assms(2,4,5) by (intro journeyFraction_complete) (simp_all add: ob4_def advanceTime_keeps)
  have trav: "updateTravelling E ob4 = ob5"
    using frac assms(3)
    by (simp add: updateTravelling_complete ob5_def arrived_def ob4_def advanceTime_keeps)
  have s5: "(if observerMode ob4 = Travelling then updateTravelling E ob4 else ob4) = ob5"
    using assms(1) trav by (simp add: ob4_def advanceTime_keeps)
  have s6: "(if getVelocity ob5 \<noteq> targetVelocity ob5 then updateVelocity ob5 else ob5) = ob5"
    using assms(6) by (simp add: ob5_def arrived_def advanceTime_keeps getVelocity_def)
  have s7: "ob5\<lparr>position := offsetKm (position ob5) (vscale (getVelocity ob5) dt)\<rparr> = ob5"
    by (simp add: ob5_def arrived_def getVelocity_def offsetKm_zero_scaled)
  have s8: "(if observerMode ob5 = Free then updateFree dt ob5 else ob5) = updateFree dt ob5"
    by (simp add: ob5_def arrived_def)
  have track: "empty_sel (trackObject (updateUniversal E (updateFree dt ob5)))"
    using assms(7)
    by (simp add: updateUniversal_def Let_def updateFree_keeps ob5_def arrived_def advanceTime_keeps)
  show ?thesis
    unfolding update_def Let_def ob4_def [symmetric] s5 s6 s7 s8
    using track by (simp add: ob5_def)
qed

lemma updateUniversal_inBounds:
  "\<not> isOutOfBounds E (convertToUniversal E (getFrame ob) (position ob) (simTime ob)) \<Longrightarrow>
   positionUniv (updateUniversal E ob) = convertToUniversal E (getFrame ob) (position ob) (simTime ob)"
  by (simp add: updateUniversal_def Let_def)

lemma updateUniversal_keeps:
  "observerMode (updateUniversal E ob) = observerMode ob"
  "simTime (updateUniversal E ob) = simTime ob"
  "velocity (updateUniversal E ob) = velocity ob"
  "frame (updateUniversal E ob) = frame ob"
  by (simp_all add: updateUniversal_def Let_def)

lemma update_observerMode:
  "observerMode (update E dt timeScale ob) =
     observerMode (if observerMode ob = Travelling then updateTravelling E (advanceTime dt timeScale ob)
                   else advanceTime dt timeScale ob)"
proof -
  have a: "observerMode (updateVelocity x) = observerMode x" for x
    by (simp add: updateVelocity_def Let_def setVelocity_def)
  have b: "observerMode (updateTracking E x) = observerMode x" for x
    by (simp add: updateTracking_def Let_def setOrientation_def)
  show ?thesis
    unfolding update_def Let_def
    by (simp add: a b updateFree_keeps updateUniversal_keeps advanceTime_keeps
        if_distrib [of observerMode] cong: if_cong)
qed

lemma update_mode_arrives:
  assumes "observerMode ob = Travelling"
    and "duration (journey ob) > 0"
    and "realTime ob + dt \<ge> startTime (journey ob) + duration (journey ob)"
    and "toFloat E 1 = 1"
  shows "observerMode (update E dt timeScale ob) = Free"
proof -
  have "journeyFraction E (advanceTime dt timeScale ob) = 1"
    using assms(2,3,4) by (intro journeyFraction_complete) (simp_all add: advanceTime_keeps)
  then have "observerMode (updateTravelling E (advanceTime dt timeScale ob)) = Free"
    by (simp add: updateTravelling_def Let_def setVelocity_def)
  with assms(1) show ?thesis
    by (simp add: update_observerMode)
qed

subsection \<open>Synchronization and bounds\<close>

lemma updateUniversal_synchronized: "synchronized E (updateUniversal E ob)"
  by (simp add: synchronized_def positionForward_def positionBackward_def orientationForward_def
      updateUniversal_def Let_def getFrame_def)

lemma setOrientation_synchronized:
  "positionForward E ob \<or> positionBackward E ob \<Longrightarrow> synchronized E (setOrientation E q ob)"
  by (simp add: synchronized_def positionForward_def positionBackward_def orientationBackward_def
      setOrientation_def getFrame_def getTime_def)

lemma setPosition_synchronized:
  "orientationForward E ob \<or> orientationBackward E ob \<Longrightarrow> synchronized E (setPosition E p ob)"
  by (simp add: synchronized_def orientationForward_def orientationBackward_def positionBackward_def
      setPosition_def getFrame_def getTime_def)

lemma setFrame3_synchronized: "synchronized E (setFrame3 E a cs refObj targetObj ob)"
  by (simp add: synchronized_def positionBackward_def orientationBackward_def setFrame3_def
      convertFrameCoordinates_def Let_def getFrame_def getTime_def)

lemma setFrame_ptr_synchronized: "synchronized E ob \<Longrightarrow> synchronized E (setFrame_ptr E f ob)"
  by (simp add: synchronized_def positionBackward_def orientationBackward_def setFrame_ptr_def
      convertFrameCoordinates_def Let_def getFrame_def getTime_def)

lemma update_synchronized: "synchronized E (update E dt timeScale ob)"
proof -
  have "synchronized E (updateTracking E (updateUniversal E x))" for x
  proof -
    have "positionForward E (updateUniversal E x) \<or> positionBackward E (updateUniversal E x)"
      using updateUniversal_synchronized [of E x] by (simp add: synchronized_def)
    then show ?thesis
      by (simp add: updateTracking_def Let_def setOrientation_synchronized)
  qed
  then show ?thesis
    by (simp add: update_def Let_def updateUniversal_synchronized)
qed

lemma call_synchronized:
  assumes "synchronized E ob"
  shows "synchronized E (call E c ob)"
proof -
  have p: "positionForward E ob \<or> positionBackward E ob"
    and q: "orientationForward E ob \<or> orientationBackward E ob"
    using assms by (simp_all add: synchronized_def)
  show ?thesis
    using assms p q
    by (cases c)
       (simp_all add: setPosition_synchronized setOrientation_synchronized update_synchronized
          setFrame3_synchronized setFrame2_def setFrame_ptr_synchronized)
qed

lemma calls_synchronized: "synchronized E ob \<Longrightarrow> synchronized E (calls E cs ob)"
  by (induction cs arbitrary: ob) (simp_all add: call_synchronized)

lemma roundTrip_forward:
  assumes "roundTrip E" and "synchronized E ob"
  shows "positionForward E ob \<and> orientationForward E ob"
  using assms
  by (auto simp add: roundTrip_def synchronized_def positionForward_def positionBackward_def
      orientationForward_def orientationBackward_def convertToUniversal_def convertFromUniversal_def
      convertToUniversalQ_def convertFromUniversalQ_def)

lemma update_positionUniv:
  "positionUniv (update E dt timeScale ob) =
     positionUniv (updateUniversal E (beforeUniversal E dt timeScale ob))"
  by (simp add: update_def beforeUniversal_def Let_def updateTracking_def setOrientation_def)

lemma updateUniversal_bounds:
  "\<not> isOutOfBounds E (positionUniv ob) \<Longrightarrow> \<not> isOutOfBounds E (positionUniv (updateUniversal E ob))"
  by (simp add: updateUniversal_def Let_def)

lemma beforeUniversal_positionUniv:
  "positionUniv (beforeUniversal E dt timeScale ob) = positionUniv ob"
  by (simp add: beforeUniversal_def Let_def advanceTime_def updateTravelling_def setVelocity_def
      updateVelocity_def updateFree_def)

lemma update_bounds:
  assumes "\<not> isOutOfBounds E (positionUniv ob)"
  shows "\<not> isOutOfBounds E (positionUniv (update E dt timeScale ob))"
proof -
  have "\<not> isOutOfBounds E (positionUniv (beforeUniversal E dt timeScale ob))"
    using assms by (simp add: beforeUniversal_positionUniv)
  then have "\<not> isOutOfBounds E (positionUniv (updateUniversal E (beforeUniversal E dt timeScale ob)))"
    by (rule updateUniversal_bounds)
  then show ?thesis
    by (simp add: update_positionUniv)
qed

lemma call_bounds:
  "\<not> isOutOfBounds E (positionUniv ob) \<Longrightarrow> \<forall>p \<in> set (positionsSet [c]). \<not> isOutOfBounds E p \<Longrightarrow>
   \<not> isOutOfBounds E (positionUniv (call E c ob))"
  by (cases c)
     (simp_all add: setPosition_def setOrientation_def update_bounds setFrame2_def
        setFrame3_def setFrame_ptr_def convertFrameCoordinates_def Let_def)

lemma positionsSet_Cons: "set (positionsSet (c # cs)) = set (positionsSet [c]) \<union> set (positionsSet cs)"
  by (cases c) simp_all

lemma calls_bounds:
  "\<not> isOutOfBounds E (positionUniv ob) \<Longrightarrow> \<forall>p \<in> set (positionsSet cs). \<not> isOutOfBounds E p \<Longrightarrow>
   \<not> isOutOfBounds E (positionUniv (calls E cs ob))"
proof (induction cs arbitrary: ob)
  case Nil
  then show ?case by simp
next
  case (Cons c cs)
  have "\<not> isOutOfBounds E (positionUniv (call E c ob))"
    using Cons.prems by (intro call_bounds) (auto simp add: positionsSet_Cons [of c cs])
  moreover have "\<forall>p \<in> set (positionsSet cs). \<not> isOutOfBounds E p"
    using Cons.prems(2) by (auto simp add: positionsSet_Cons [of c cs])
  ultimately show ?case
    using Cons.IH by simp
qed

lemma orbitStart_keeps:
  "simTime (orbitStart E a selection ob) = simTime ob"
  "positionUniv (orbitStart E a selection ob) = positionUniv ob"
  by (simp_all add: orbitStart_def setFrame2_def setFrame3_keeps)

lemma orbitStart_backward:
  assumes "roundTrip E" and "positionForward E ob \<or> positionBackward E ob"
  shows "positionBackward E (orbitStart E a selection ob)"
proof (cases "empty_sel (getRefObject (getFrame ob)) \<and> \<not> empty_sel selection")
  case True
  then show ?thesis
    by (simp add: orbitStart_def positionBackward_def setFrame2_def setFrame3_def
        convertFrameCoordinates_def Let_def getFrame_def getTime_def)
next
  case False
  have rt: "rfFromUniversal E f (rfToUniversal E f p t) t = p" for f p t
    using assms(1) by (simp add: roundTrip_def)
  have "positionBackward E ob"
  proof (rule disjE [OF assms(2)])
    assume "positionForward E ob"
    then have "positionUniv ob = rfToUniversal E (frame_rf (getFrame ob)) (position ob) (simTime ob)"
      by (simp add: positionForward_def convertToUniversal_def)
    then show ?thesis
      by (simp add: positionBackward_def convertFromUniversal_def rt)
  qed
  with False show ?thesis by (auto simp add: orbitStart_def)
qed

subsection \<open>The sample states\<close>

lemma preferred_sample: "getPreferredDistance sampleExternals (Type_Body sampleBody) = 31855"
  by (simp add: sampleBody_def sampleExternals_def sampleRadius_def)

lemma sampleObserver_eq:
  "sampleObserver =
       \<lparr>simTime = 0,
        position = UniversalCoord 0 0 0,
        orientation = qIdentity,
        velocity = Zero3,
        angularVelocity = Zero3,
        positionUniv = UniversalCoord 0 0 0,
        orientationUniv = qIdentity,
        frame = (0, ObserverFrame_default sampleExternals),
        realTime = 0,
        targetSpeed = 0,
        targetVelocity = Zero3,
        initialVelocity = Zero3,
        beginAccelTime = 0,
        observerMode = Free,
        journey = sampleJourney,
        trackObject = Type_Nil,
        trackingOrientation = qIdentity,
        fov = pi / 4,
        reverseFlag = False,
        locationFilter = 2 ^ 64 - 1,
        displayedSurface = []\<rparr>"
  by (simp add: sampleObserver_def Observer_init_def updateUniversal_def Let_def getFrame_def
      ObserverFrame_default_def createFrame_def convertToUniversal_def convertToUniversalQ_def
      sampleExternals_def samplePosition_def ucZero_def offsetKm_def offsetFromKm_def)

lemma sampleFollowing_eq:
  "sampleFollowing = sampleObserver\<lparr>position := UniversalCoord (- 1000000) 0 0,
    frame := (1, ObserverFrame_new sampleExternals Ecliptical (Type_Body sampleBody) Type_Nil),
    journey := sampleJourney\<lparr>jfrom := UniversalCoord (- 1000000) 0 0, jto := UniversalCoord (- 1000000) 0 0\<rparr>\<rparr>"
  unfolding sampleFollowing_def sampleObserver_eq
  by (simp add: setFrame2_def setFrame3_def convertFrameCoordinates_def Let_def getTime_def getFrame_def
      convertFromUniversal_def convertFromUniversalQ_def convert_def convertQ_def convertToUniversal_def convertToUniversalQ_def
      ObserverFrame_new_def ObserverFrame_default_def createFrame_def sampleJourney_def
      sampleExternals_def samplePosition_def sampleBody_def ucZero_def offsetKm_def offsetFromKm_def)

lemma sampleGoto_eq:
  "sampleGoto = sampleFollowing\<lparr>
      frame := (2, ObserverFrame_new sampleExternals Ecliptical (Type_Body sampleBody) Type_Nil),
      observerMode := Travelling,
      journey := \<lparr>duration = 5, startTime = 0, jfrom = UniversalCoord (- 1000000) 0 0,
      jto = UniversalCoord (- 31855) 0 0,
      initialOrientation = qIdentity, finalOrientation = qIdentity,
      startInterpolation = 0, endInterpolation = 1 / 2,
      expFactor = solveExpFactor (968145 / 2) (1 / 2), accelTime = 1 / 2,
      rotation1 = qIdentity, centerObject = Type_Nil, traj = Linear\<rparr>\<rparr>"
  unfolding sampleGoto_def sampleFollowing_eq sampleObserver_eq
  apply (simp add: gotoSelection_def gotoSelection_interp_def empty_sel_def Let_def getTime_def getPosition_def)
  apply (simp add: sampleExternals_def samplePosition_def sampleBody_def  )
  apply (simp add: offsetFromKm_def vnorm_x_axis getOrbitDistance_def Let_def sampleRadius_def vscale_def)
  apply (simp add: computeGotoParameters_def Let_def getFrame_def getCoordinateSystem_def ObserverFrame_new_def
      setFrame2_def setFrame3_def convertFrameCoordinates_def  getTime_def getPosition_def getOrientation_def journeyToFrame_def
   convertFromUniversal_def convertFromUniversalQ_def convert_def convertQ_def convertToUniversal_def convertToUniversalQ_def
   createFrame_def samplePosition_def  AccelerationTime_def frameOrientationConj_def qrot_conj_identity
   offsetKm_def offsetFromKm_def vnorm_x_axis ucZero_def sampleJourney_def)
  done

lemma sampleGoto_fields:
  "observerMode sampleGoto = Travelling"
  "duration (journey sampleGoto) = 5"
  "startTime (journey sampleGoto) = 0"
  "traj (journey sampleGoto) = Linear"
  "jto (journey sampleGoto) = UniversalCoord (- 31855) 0 0"
  "finalOrientation (journey sampleGoto) = qIdentity"
  "startInterpolation (journey sampleGoto) = 0"
  "endInterpolation (journey sampleGoto) = 1 / 2"
  "accelTime (journey sampleGoto) = 1 / 2"
  "realTime sampleGoto = 0"
  "targetVelocity sampleGoto = Zero3"
  "angularVelocity sampleGoto = Zero3"
  "trackObject sampleGoto = Type_Nil"
  "frame sampleGoto = (2, ObserverFrame_new sampleExternals Ecliptical (Type_Body sampleBody) Type_Nil)"
  by (simp_all add: sampleGoto_eq sampleFollowing_eq sampleObserver_eq)

lemma sample_toUniversal:
  "convertToUniversal sampleExternals
     (ObserverFrame_new sampleExternals Ecliptical (Type_Body sampleBody) Type_Nil) (UniversalCoord x y z) t
   = UniversalCoord (x + 1000000) y z"
  by (simp add: convertToUniversal_def ObserverFrame_new_def createFrame_def sampleExternals_def
      samplePosition_def sampleBody_def offsetKm_def offsetFromKm_def ucZero_def)

lemma sample_fromUniversal:
  "convertFromUniversal sampleExternals
     (ObserverFrame_new sampleExternals Ecliptical (Type_Body sampleBody) Type_Nil) (UniversalCoord x y z) t
   = UniversalCoord (x - 1000000) y z"
  by (simp add: convertFromUniversal_def ObserverFrame_new_def createFrame_def sampleExternals_def
      samplePosition_def sampleBody_def offsetKm_def offsetFromKm_def ucZero_def)

lemma sample_inBounds:
  "isOutOfBounds sampleExternals (UniversalCoord x y z) \<longleftrightarrow> \<bar>x\<bar> > 10 ^ 15 \<or> \<bar>y\<bar> > 10 ^ 15 \<or> \<bar>z\<bar> > 10 ^ 15"
  by (simp add: sampleExternals_def)

lemma sample_toFloat: "toFloat sampleExternals x = x"
  by (simp add: sampleExternals_def)

lemma sample_roundTrip: "roundTrip sampleExternals"
  by (simp add: roundTrip_def sampleExternals_def offsetKm_def offsetFromKm_def ucZero_def)

lemma sample_default_conversions:
  "convertToUniversal sampleExternals (ObserverFrame_default sampleExternals) p t = p"
  "convertFromUniversal sampleExternals (ObserverFrame_default sampleExternals) p t = p"
  by (simp_all add: convertToUniversal_def convertFromUniversal_def ObserverFrame_default_def
      createFrame_def sampleExternals_def samplePosition_def offsetKm_def offsetFromKm_def ucZero_def)

lemma sampleObserver_synchronized: "synchronized sampleExternals sampleObserver"
  unfolding sampleObserver_def Observer_init_def by (rule updateUniversal_synchronized)



lemma sampleGoto_update:
  "update sampleExternals 5 1 sampleGoto =
     sampleGoto\<lparr>realTime := 5, simTime := 5 / 86400, observerMode := Free,
        position := UniversalCoord (- 31855) 0 0,
        positionUniv := UniversalCoord 968145 0 0\<rparr>"
proof -
  define ob5 where "ob5 = arrived 5 1 sampleGoto"
  have ob5: "ob5 = sampleGoto\<lparr>realTime := 5, simTime := 5 / 86400, observerMode := Free,
        position := UniversalCoord (- 31855) 0 0\<rparr>"
    by (simp add: ob5_def arrived_def advanceTime_def Let_def maximumSimTime_def minimumSimTime_def
        sampleGoto_eq sampleFollowing_eq sampleObserver_eq)
  have upd: "update sampleExternals 5 1 sampleGoto = updateUniversal sampleExternals (updateFree 5 ob5)"
    unfolding ob5_def
    by (rule update_arrives) (simp_all add: sampleGoto_fields sample_toFloat empty_sel_def)
  have free: "updateFree 5 ob5 = ob5"
    by (rule updateFree_still)
       (simp_all add: ob5 sampleGoto_eq sampleFollowing_eq sampleObserver_eq qIdentity_unit)
  have f5: "frame ob5 = (2, ObserverFrame_new sampleExternals Ecliptical (Type_Body sampleBody) Type_Nil)"
    "position ob5 = UniversalCoord (- 31855) 0 0" "orientation ob5 = qIdentity"
    by (simp_all add: ob5 sampleGoto_eq sampleFollowing_eq sampleObserver_eq)
  have uu: "updateUniversal sampleExternals ob5 =
      ob5\<lparr>positionUniv := UniversalCoord 968145 0 0, orientationUniv := qIdentity\<rparr>"
    by (simp add: updateUniversal_def Let_def getFrame_def f5 sample_toUniversal sample_inBounds
        convertToUniversalQ_def)
       (simp add: sampleExternals_def)
  show ?thesis
    unfolding upd free uu
    by (simp add: ob5) (simp add: sampleGoto_eq sampleFollowing_eq sampleObserver_eq)
qed

lemma sampleFarAway_set:
  "setPosition sampleExternals sampleFarAway sampleObserver =
     sampleObserver\<lparr>positionUniv := sampleFarAway, position := sampleFarAway\<rparr>"
  by (simp add: setPosition_def getFrame_def getTime_def sampleObserver_eq sample_default_conversions)

lemma sampleFarAway_before:
  "beforeUniversal sampleExternals 0 0 (sampleObserver\<lparr>positionUniv := sampleFarAway, position := sampleFarAway\<rparr>)
     = sampleObserver\<lparr>positionUniv := sampleFarAway, position := sampleFarAway\<rparr>"
proof -
  define s1 where "s1 = sampleObserver\<lparr>positionUniv := sampleFarAway, position := sampleFarAway\<rparr>"
  have a: "advanceTime 0 0 s1 = s1"
    by (simp add: advanceTime_def Let_def s1_def sampleObserver_eq maximumSimTime_def minimumSimTime_def)
  have f: "observerMode s1 = Free" "velocity s1 = Zero3" "targetVelocity s1 = Zero3"
    by (simp_all add: s1_def sampleObserver_eq)
  have p: "s1\<lparr>position := offsetKm (position s1) (vscale (getVelocity s1) 0)\<rparr> = s1"
    by (simp add: getVelocity_def f offsetKm_zero_scaled)
  have u: "updateFree 0 s1 = s1"
    by (rule updateFree_still) (simp_all add: s1_def sampleObserver_eq qIdentity_unit)
  show ?thesis
    unfolding s1_def [symmetric] beforeUniversal_def Let_def a
    by (simp add: f u getVelocity_def offsetKm_zero_scaled)
qed

subsection \<open>Frame-local and universal coordinates stay synchronized\<close>

text \<open>
  C1. After every sequence of \<^verbatim>\<open>setPosition\<close>, \<^verbatim>\<open>setOrientation\<close>, \<^verbatim>\<open>update\<close> and \<^verbatim>\<open>setFrame\<close>
  calls the frame-local and the universal coordinates agree through the frame (lemmas
  \<open>calls_synchronized\<close> and \<open>roundTrip_forward\<close>), and \<^verbatim>\<open>positionUniv\<close> is within bounds as
  long as no coordinate out of bounds is given to \<^verbatim>\<open>setPosition\<close> (lemma \<open>calls_bounds\<close>). The
  code departs from the claim in the value that \<^verbatim>\<open>positionUniv\<close> is left at when the
  attempted position is out of bounds: \<^verbatim>\<open>setPosition\<close> stores the coordinate it is given
  in \<^verbatim>\<open>positionUniv\<close> with no bounds check. The default observer of the sample environment
  has \<^verbatim>\<open>positionUniv\<close> within bounds. After \<^verbatim>\<open>setPosition\<close> with the coordinate
  (2 * 10^15, 0, 0), which is out of bounds, the call \<^verbatim>\<open>update(0, 0)\<close> reaches
  \<^verbatim>\<open>updateUniversal\<close> with a position whose conversion to universal coordinates is out of
  bounds; the branch for that case leaves \<^verbatim>\<open>positionUniv\<close> as it was, at
  (2 * 10^15, 0, 0), which is not within the bounds, although the comment in that branch
  says that \<^verbatim>\<open>positionUniv\<close> contains a position within the bounds of the simulation.
\<close>

theorem unchecked_setPosition_out_of_bounds:
  "\<not> isOutOfBounds sampleExternals (positionUniv sampleObserver)
   \<and> isOutOfBounds sampleExternals sampleFarAway
   \<and> positionUniv (setPosition sampleExternals sampleFarAway sampleObserver) = sampleFarAway
   \<and> isOutOfBounds sampleExternals
        (convertToUniversal sampleExternals
           (getFrame (beforeUniversal sampleExternals 0 0 (setPosition sampleExternals sampleFarAway sampleObserver)))
           (position (beforeUniversal sampleExternals 0 0 (setPosition sampleExternals sampleFarAway sampleObserver)))
           (simTime (beforeUniversal sampleExternals 0 0 (setPosition sampleExternals sampleFarAway sampleObserver))))
   \<and> positionUniv (update sampleExternals 0 0 (setPosition sampleExternals sampleFarAway sampleObserver))
        = sampleFarAway
   \<and> isOutOfBounds sampleExternals
        (positionUniv (update sampleExternals 0 0 (setPosition sampleExternals sampleFarAway sampleObserver)))"
proof -
  have far: "isOutOfBounds sampleExternals sampleFarAway"
    by (simp add: sampleFarAway_def sample_inBounds)
  have near: "\<not> isOutOfBounds sampleExternals (positionUniv sampleObserver)"
    by (simp add: sampleObserver_eq sample_inBounds)
  have stored: "positionUniv (setPosition sampleExternals sampleFarAway sampleObserver) = sampleFarAway"
    by (simp add: sampleFarAway_set)
  have att: "convertToUniversal sampleExternals
           (getFrame (beforeUniversal sampleExternals 0 0 (setPosition sampleExternals sampleFarAway sampleObserver)))
           (position (beforeUniversal sampleExternals 0 0 (setPosition sampleExternals sampleFarAway sampleObserver)))
           (simTime (beforeUniversal sampleExternals 0 0 (setPosition sampleExternals sampleFarAway sampleObserver)))
        = sampleFarAway"
    by (simp add: sampleFarAway_set sampleFarAway_before)
       (simp add: getFrame_def sampleObserver_eq sample_default_conversions)
  have fin: "positionUniv (update sampleExternals 0 0 (setPosition sampleExternals sampleFarAway sampleObserver))
       = sampleFarAway"
    by (simp add: update_positionUniv sampleFarAway_set sampleFarAway_before)
       (simp add: updateUniversal_def Let_def getFrame_def sampleObserver_eq sample_default_conversions)
  show ?thesis
    using far near stored att fin by simp
qed

subsection \<open>Switching the frame\<close>

text \<open>
  C2. Each of the three overloads of \<^verbatim>\<open>setFrame\<close> leaves the universal position and the
  universal orientation of the observer as they were, for every observer, every frame it
  had and every new frame. Putting the old frame, the old frame-local position and
  orientation and the old journey endpoints back gives the observer as it was, so nothing
  else changes; and the values recomputed are the universal position and orientation
  converted into the new frame, and the journey's \<^verbatim>\<open>from\<close>, \<^verbatim>\<open>to\<close>, \<^verbatim>\<open>initialOrientation\<close> and
  \<^verbatim>\<open>finalOrientation\<close> converted from the old frame to the new one. The pointer overload
  does nothing when it is given the pointer the observer already holds.
\<close>

theorem setFrame_keeps_universal:
  "(\<forall>ob' \<in> {setFrame3 E a cs refObj targetObj ob, setFrame2 E a cs refObj ob, setFrame_ptr E f ob}.
      getPosition ob' = getPosition ob
      \<and> getOrientation ob' = getOrientation ob
      \<and> ob'\<lparr>position := position ob, orientation := orientation ob, frame := frame ob,
             journey := (journey ob')\<lparr>jfrom := jfrom (journey ob), jto := jto (journey ob),
                            initialOrientation := initialOrientation (journey ob),
                            finalOrientation := finalOrientation (journey ob)\<rparr>\<rparr> = ob)
   \<and> (let ob' = setFrame3 E a cs refObj targetObj ob; new = ObserverFrame_new E cs refObj targetObj
      in frame ob' = (a, new)
       \<and> position ob' = convertFromUniversal E new (getPosition ob) (getTime ob)
       \<and> orientation ob' = convertFromUniversalQ E new (getOrientation ob) (getTime ob)
       \<and> jfrom (journey ob') = convert E (getFrame ob) new (jfrom (journey ob)) (getTime ob)
       \<and> jto (journey ob') = convert E (getFrame ob) new (jto (journey ob)) (getTime ob)
       \<and> initialOrientation (journey ob') =
           convertQ E (getFrame ob) new (initialOrientation (journey ob)) (getTime ob)
       \<and> finalOrientation (journey ob') =
           convertQ E (getFrame ob) new (finalOrientation (journey ob)) (getTime ob))
   \<and> setFrame2 E a cs refObj ob = setFrame3 E a cs refObj Type_Nil ob
   \<and> (let ob' = setFrame_ptr E f ob
      in if fst f = fst (frame ob) then ob' = ob
         else frame ob' = f
       \<and> position ob' = convertFromUniversal E (snd f) (getPosition ob) (getTime ob)
       \<and> orientation ob' = convertFromUniversalQ E (snd f) (getOrientation ob) (getTime ob)
       \<and> jfrom (journey ob') = convert E (getFrame ob) (snd f) (jfrom (journey ob)) (getTime ob)
       \<and> jto (journey ob') = convert E (getFrame ob) (snd f) (jto (journey ob)) (getTime ob)
       \<and> initialOrientation (journey ob') =
           convertQ E (getFrame ob) (snd f) (initialOrientation (journey ob)) (getTime ob)
       \<and> finalOrientation (journey ob') =
           convertQ E (getFrame ob) (snd f) (finalOrientation (journey ob)) (getTime ob))"
  by (simp add: setFrame3_def setFrame2_def setFrame_ptr_def convertFrameCoordinates_def Let_def
        getPosition_def getOrientation_def getTime_def)

theorem setFrame_keeps_universal_witness:
  "getPosition (setFrame3 sampleExternals 1 Ecliptical (Type_Body sampleBody) Type_Nil sampleObserver) = ucZero
   \<and> position (setFrame3 sampleExternals 1 Ecliptical (Type_Body sampleBody) Type_Nil sampleObserver)
       = UniversalCoord (- 1000000) 0 0"
  using setFrame_keeps_universal [of sampleExternals 1 Ecliptical "Type_Body sampleBody" Type_Nil
      sampleObserver "(1, ObserverFrame_default sampleExternals)"]
  by (simp add: Let_def sampleObserver_def Observer_init_def updateUniversal_def getPosition_def
      getFrame_def ObserverFrame_default_def convertToUniversal_def createFrame_def
      sampleExternals_def samplePosition_def ucZero_def offsetKm_def offsetFromKm_def getTime_def
      convertFromUniversal_def ObserverFrame_new_def sampleBody_def)

subsection \<open>The end of a journey\<close>




subsection \<open>The travel profile\<close>




subsection \<open>The calibration of the growth rate\<close>




subsection \<open>The distance a goto stops at\<close>

text \<open>
  C6, as amended. The distance a direct selection goto chooses is the preferred distance
  when the observer is further from the object than ten times the preferred distance, and
  one tenth of the current distance otherwise; in both cases it is raised to 1.01 times
  the object's radius when it would be less. For a selection that is not empty and an
  observer whose distance from the position of the selection is not zero, with the
  universal frame unrotated, the destination of the journey is the point of the universal
  frame that lies on the line from the target through the current position, converted
  into the observer's new frame; its distance from the target is the chosen distance (in
  absolute value).
\<close>

theorem orbit_distance_policy:
  "getOrbitDistance E sel cur =
     max (if cur > getPreferredDistance E sel * 10 then getPreferredDistance E sel else cur * 0.1)
         (1.01 * selRadius E sel)
   \<and> getOrbitDistance E sel cur \<ge> 1.01 * selRadius E sel
   \<and> (\<not> empty_sel sel
        \<and> vnorm (offsetFromKm (selGetPosition E sel (simTime ob)) (getPosition ob)) \<noteq> 0
        \<and> rfGetOrientation E (J2000EclipticFrame Type_Nil) (simTime ob) = qIdentity \<longrightarrow>
      (let target = selGetPosition E sel (simTime ob);
           v = offsetFromKm target (getPosition ob);
           od = getOrbitDistance E sel (vnorm v);
           destination = offsetKm target (vscale v (- (od / vnorm v)));
           ob' = gotoSelection_interp E a sel gotoTime si ei acc up upFrame ob
       in jto (journey ob') = convertFromUniversal E (getFrame ob') destination (simTime ob)
          \<and> vnorm (offsetFromKm destination target) = \<bar>od\<bar>))"
proof -
  have a: "getOrbitDistance E sel cur =
     max (if cur > getPreferredDistance E sel * 10 then getPreferredDistance E sel else cur * 0.1)
         (1.01 * selRadius E sel)"
    by (simp add: getOrbitDistance_def Let_def)
  have b: "getOrbitDistance E sel cur \<ge> 1.01 * selRadius E sel"
    by (simp add: getOrbitDistance_def Let_def)
  have c: "jto (journey (gotoSelection_interp E a sel gotoTime si ei acc up upFrame ob)) =
        convertFromUniversal E (getFrame (gotoSelection_interp E a sel gotoTime si ei acc up upFrame ob))
          (offsetKm (selGetPosition E sel (simTime ob))
             (vscale (offsetFromKm (selGetPosition E sel (simTime ob)) (getPosition ob))
                (- (getOrbitDistance E sel
                      (vnorm (offsetFromKm (selGetPosition E sel (simTime ob)) (getPosition ob)))
                    / vnorm (offsetFromKm (selGetPosition E sel (simTime ob)) (getPosition ob))))))
          (simTime ob)"
    if "\<not> empty_sel sel" and "rfGetOrientation E (J2000EclipticFrame Type_Nil) (simTime ob) = qIdentity"
      and "vnorm (offsetFromKm (selGetPosition E sel (simTime ob)) (getPosition ob)) \<noteq> 0"
    using that by (rule gotoSelection_interp_jto)
  have d: "vnorm (offsetFromKm (offsetKm target (vscale v (- (od / vnorm v)))) target) = \<bar>od\<bar>"
    if "vnorm v \<noteq> 0" for target v od
  proof -
    have "0 \<le> vnorm v" by (rule vnorm_nonneg)
    with that show ?thesis by (simp add: offset_roundtrip vnorm_vscale)
  qed
  show ?thesis
    using a b c d by (simp add: Let_def)
qed

theorem orbit_distance_policy_witness:
  "\<not> empty_sel (Type_Body sampleBody)
   \<and> rfGetOrientation sampleExternals (J2000EclipticFrame Type_Nil) (simTime sampleFollowing) = qIdentity
   \<and> getOrbitDistance sampleExternals (Type_Body sampleBody) 1000000 = 31855
   \<and> jto (journey (gotoSelection_interp sampleExternals 2 (Type_Body sampleBody) 5 0 (1 / 2) (1 / 2)
                      UnitY Universal sampleFollowing)) = UniversalCoord (- 31855) 0 0
   \<and> vnorm (offsetFromKm (selGetPosition sampleExternals (Type_Body sampleBody) 0)
              (getPosition sampleFollowing)) \<noteq> 0
   \<and> vnorm (offsetFromKm (UniversalCoord 968145 0 0)
              (selGetPosition sampleExternals (Type_Body sampleBody) 0)) = 31855"
proof -
  have ne: "\<not> empty_sel (Type_Body sampleBody)"
    by (simp add: empty_sel_def)
  have unrot: "rfGetOrientation sampleExternals (J2000EclipticFrame Type_Nil) (simTime sampleFollowing) = qIdentity"
    by (simp add: sampleExternals_def)
  have there: "selGetPosition sampleExternals (Type_Body sampleBody) t = UniversalCoord 1000000 0 0" for t
    by (simp add: sampleExternals_def samplePosition_def sampleBody_def)
  have here: "getPosition sampleFollowing = UniversalCoord 0 0 0"
    by (simp add: sampleFollowing_eq sampleObserver_eq getPosition_def)
  have tag: "getCoordinateSystem (getFrame sampleFollowing) = Ecliptical"
    by (simp add: sampleFollowing_eq getFrame_def getCoordinateSystem_def ObserverFrame_new_def)
  have rad: "selRadius sampleExternals (Type_Body sampleBody) = 6371"
    by (simp add: sampleExternals_def sampleRadius_def sampleBody_def)
  have fr: "getFrame (gotoSelection_interp sampleExternals 2 (Type_Body sampleBody) 5 0 (1 / 2) (1 / 2)
                      UnitY Universal sampleFollowing)
            = ObserverFrame_new sampleExternals Ecliptical (Type_Body sampleBody) Type_Nil"
    using ne tag by (simp add: gotoSelection_interp_def Let_def getFrame_def computeGotoParameters_frame)
  have od: "getOrbitDistance sampleExternals (Type_Body sampleBody) 1000000 = 31855"
    by (simp add: getOrbitDistance_def Let_def rad) (simp add: sampleBody_def)
  show ?thesis
    using ne unrot
      orbit_distance_policy [where E = sampleExternals and sel = "Type_Body sampleBody" and cur = 1000000
        and ob = sampleFollowing and a = 2 and gotoTime = 5 and si = 0 and ei = "1 / 2" and acc = "1 / 2"
        and up = UnitY and upFrame = Universal]
    by (simp add: Let_def there here offsetFromKm_def vnorm_x_axis od rad fr
        vscale_def offsetKm_def sample_fromUniversal)
qed

text \<open>The claim as it was stated has the two cases the other way round: a body of radius
  6371 km has the preferred distance 31855 km; from a million kilometres, which is more
  than ten times that, the goto stops at the preferred distance and not at one tenth of
  the way, and from a hundred thousand kilometres it stops at one tenth and not at the
  preferred distance.\<close>

theorem orbit_distance_counterexample:
  "getPreferredDistance sampleExternals (Type_Body sampleBody) = 31855
   \<and> getOrbitDistance sampleExternals (Type_Body sampleBody) 1000000 = 31855
   \<and> getOrbitDistance sampleExternals (Type_Body sampleBody) 1000000 \<noteq> 1000000 / 10
   \<and> getOrbitDistance sampleExternals (Type_Body sampleBody) 100000 = 100000 / 10
   \<and> getOrbitDistance sampleExternals (Type_Body sampleBody) 100000
        \<noteq> getPreferredDistance sampleExternals (Type_Body sampleBody)"
  by (simp add: getOrbitDistance_def preferred_sample Let_def)
     (simp add: sampleBody_def sampleExternals_def sampleRadius_def)

subsection \<open>Empty selections\<close>

text \<open>
  C7, as amended. With the empty selection, the three overloads of \<^verbatim>\<open>gotoSelection\<close>, the
  two of \<^verbatim>\<open>gotoSelectionGC\<close>, \<^verbatim>\<open>gotoSelectionLongLat\<close>, \<^verbatim>\<open>centerSelection\<close>,
  \<^verbatim>\<open>centerSelectionCO\<close>, \<^verbatim>\<open>chase\<close> and \<^verbatim>\<open>geosynchronousFollow\<close> return the observer as it was:
  mode, position, orientation, frame and journey are unchanged. \<^verbatim>\<open>follow\<close> has no such
  check: with the empty selection it installs the frame \<^verbatim>\<open>ObserverFrame(Ecliptical,
  Selection())\<close>, keeping the mode and the universal position and orientation.
\<close>

theorem empty_selection_noop:
  "gotoSelection E a Type_Nil gotoTime up upFrame ob = ob
   \<and> gotoSelection_interp E a Type_Nil gotoTime si ei acc up upFrame ob = ob
   \<and> gotoSelection_dist E a Type_Nil gotoTime d up upFrame ob = ob
   \<and> gotoSelectionGC E a Type_Nil gotoTime up upFrame ob = ob
   \<and> gotoSelectionGC_dist E a Type_Nil gotoTime d up upFrame ob = ob
   \<and> gotoSelectionLongLat E a Type_Nil gotoTime d lon lat up ob = ob
   \<and> centerSelection E Type_Nil centerTime ob = ob
   \<and> centerSelectionCO E Type_Nil centerTime ob = ob
   \<and> chase E a Type_Nil ob = ob
   \<and> geosynchronousFollow E a Type_Nil ob = ob
   \<and> frame (follow E a Type_Nil ob) = (a, ObserverFrame_new E Ecliptical Type_Nil Type_Nil)
   \<and> getMode (follow E a Type_Nil ob) = getMode ob
   \<and> getPosition (follow E a Type_Nil ob) = getPosition ob
   \<and> getOrientation (follow E a Type_Nil ob) = getOrientation ob"
  by (simp add: gotoSelection_def gotoSelection_interp_def gotoSelection_dist_def
        gotoSelectionLongLat_def gotoSelectionGC_def gotoSelectionGC_dist_def centerSelection_def
        centerSelectionCO_def chase_def geosynchronousFollow_def empty_sel_def body_def star_def
        location_def follow_def setFrame2_def setFrame3_keeps getPosition_def getOrientation_def)
     (simp add: setFrame3_def convertFrameCoordinates_def Let_def getMode_def)

theorem empty_selection_noop_witness:
  "empty_sel Type_Nil
   \<and> gotoSelection sampleExternals 1 Type_Nil 5 UnitY Universal sampleObserver = sampleObserver
   \<and> centerSelection sampleExternals Type_Nil (1 / 2) sampleObserver = sampleObserver
   \<and> chase sampleExternals 1 Type_Nil sampleObserver = sampleObserver"
  using empty_selection_noop [of sampleExternals 1 5 UnitY Universal sampleObserver 0 0 0 0 0 0 "1 / 2"]
  by (simp add: empty_sel_def)

text \<open>The claim as it was stated fails for \<^verbatim>\<open>follow\<close>: on a default observer, whose frame has
  the tag \<^verbatim>\<open>Universal\<close>, following the empty selection changes the frame.\<close>

theorem follow_empty_counterexample:
  "empty_sel Type_Nil
   \<and> frame (follow sampleExternals 1 Type_Nil sampleObserver) \<noteq> frame sampleObserver
   \<and> getCoordinateSystem (getFrame (follow sampleExternals 1 Type_Nil sampleObserver)) = Ecliptical
   \<and> getCoordinateSystem (getFrame sampleObserver) = Universal"
  by (simp add: follow_def setFrame2_def setFrame3_keeps sampleObserver_def Observer_init_def
      updateUniversal_def Let_def empty_sel_def getFrame_def getCoordinateSystem_def
      ObserverFrame_new_def ObserverFrame_default_def)

text \<open>\<^verbatim>\<open>gotoSurface\<close> does not look at the selection either: with the empty selection it
  still starts a journey.\<close>

lemma gotoSurface_empty_travelling:
  "getMode (gotoSurface E Type_Nil dur ob) = Travelling"
  by (simp add: gotoSurface_def gotoLocation_def Let_def getMode_def)

subsection \<open>Orbiting keeps the distance\<close>

text \<open>
  C8. For every selection and every quaternion q, \<^verbatim>\<open>orbit(selection, q)\<close> leaves the distance
  between the frame-local position of the observer and the focus as it was: the focus is
  the position of the frame's reference object, or of the selection when the frame has no
  reference object and the selection is not empty, converted into the frame the orbit is
  carried out in (the frame re-anchored at the selection in the second case). This is in
  exact arithmetic, for frames whose conversions are inverses of each other and an
  observer whose position is synchronized with its universal position.
\<close>

theorem orbit_keeps_distance:
  assumes "roundTrip E"
    and "positionForward E ob \<or> positionBackward E ob"
  shows "vnorm (offsetFromKm (position (orbit E a selection q ob)) (orbitFocus E a selection ob))
       = vnorm (offsetFromKm (position (orbitStart E a selection ob)) (orbitFocus E a selection ob))"
proof -
  define ob1 where "ob1 = orbitStart E a selection ob"
  define center where "center = orbitCenter selection ob"
  define focus where "focus = orbitFocus E a selection ob"
  define v where "v = offsetFromKm (position ob1) focus"
  define qd2 where "qd2 = qnormalize (qmul (qmul (conjugate (orientation ob1)) q) (orientation ob1))"
  define v2 where "v2 = vscale (normalized (qrot (conjugate qd2) v)) (vnorm v)"
  define ob2 where "ob2 = ob1\<lparr>orientation := qmul (orientation ob1) qd2, position := offsetKm focus v2\<rparr>"
  have bw: "positionBackward E ob1"
    unfolding ob1_def using assms by (rule orbitStart_backward)
  have t1: "getTime ob1 = getTime ob"
    by (simp add: getTime_def ob1_def orbitStart_keeps)
  have orb: "orbit E a selection q ob = (if \<not> empty_sel center then updateUniversal E ob2 else ob1)"
    by (cases "empty_sel (getRefObject (getFrame ob)) \<and> \<not> empty_sel selection")
       (simp_all add: orbit_def Let_def ob2_def v2_def qd2_def v_def focus_def orbitFocus_def
          ob1_def center_def orbitCenter_def orbitStart_def getTime_def setFrame2_def setFrame3_keeps)
  have nv2: "vnorm v2 = vnorm v"
    unfolding v2_def by (rule rescaled_norm) (simp add: qd2_def qrot_normalized_norm)
  have moved: "vnorm (offsetFromKm (position ob2) focus) = vnorm v"
    by (simp add: ob2_def offset_roundtrip nv2)
  have "position (updateUniversal E ob2) = position ob2 \<or> position (updateUniversal E ob2) = position ob1"
    using bw
    by (simp add: updateUniversal_def Let_def positionBackward_def ob2_def getFrame_def)
  then have "vnorm (offsetFromKm (position (updateUniversal E ob2)) focus) = vnorm v"
    using moved by (auto simp add: v_def)
  then show ?thesis
    by (simp add: orb focus_def [symmetric] ob1_def [symmetric] v_def)
qed

theorem orbit_keeps_distance_witness:
  "roundTrip sampleExternals
   \<and> positionBackward sampleExternals sampleFollowing
   \<and> vnorm (offsetFromKm
        (position (orbit sampleExternals 3 Type_Nil (Quaterniond 0 0 1 0) sampleFollowing))
        (UniversalCoord 0 0 0)) = 1000000"
proof -
  have bw: "positionBackward sampleExternals sampleFollowing"
    by (simp add: positionBackward_def sampleFollowing_eq sampleObserver_eq getFrame_def
        sample_fromUniversal)
  have c: "getRefObject (getFrame sampleFollowing) = Type_Body sampleBody"
    by (simp add: sampleFollowing_eq getFrame_def getRefObject_def ObserverFrame_new_def createFrame_def)
  have st: "orbitStart sampleExternals 3 Type_Nil sampleFollowing = sampleFollowing"
    by (simp add: orbitStart_def empty_sel_def)
  have fo: "orbitFocus sampleExternals 3 Type_Nil sampleFollowing = UniversalCoord 0 0 0"
    by (simp add: orbitFocus_def st orbitCenter_def empty_sel_def c)
       (simp add: sampleFollowing_eq getFrame_def sampleExternals_def samplePosition_def sampleBody_def
          convertFromUniversal_def ObserverFrame_new_def createFrame_def offsetKm_def offsetFromKm_def
          ucZero_def)
  have p: "position sampleFollowing = UniversalCoord (- 1000000) 0 0"
    by (simp add: sampleFollowing_eq)
  show ?thesis
    using sample_roundTrip bw
      orbit_keeps_distance [OF sample_roundTrip disjI2 [OF bw], of 3 Type_Nil "Quaterniond 0 0 1 0"]
    by (simp add: st fo p offsetFromKm_def vnorm_x_axis)
qed

subsection \<open>The example scenario\<close>

text \<open>
  C9, as amended. For an observer and a body B of radius 6371 km that is not an invisible
  reference point, the call \<^verbatim>\<open>gotoSelection(B, 5.0, up, upFrame)\<close> sets the interpolation
  window to [0, 0.5] and the acceleration time to 0.5, and after one \<^verbatim>\<open>update(5.0, 1.0)\<close>
  the mode is \<^verbatim>\<open>Free\<close>. The preferred distance of B is 5 times 6371 km, and the orbit
  distance chosen from a distance of more than ten times that is the preferred distance.
  When moreover the observer's frame is ecliptical, the observer is not at the position of
  B, has no target velocity and tracks no object, and the destination is within bounds,
  the distance of the observer to the position of B after the update is the orbit
  distance chosen from the distance at the start. This is in an environment where the
  ecliptical frame of B translates to the position of B, the universal frame is unrotated,
  and narrowing 1 to \<^verbatim>\<open>float\<close> gives 1.
\<close>

theorem example_scenario:
  assumes visible: "getClassification B \<noteq> Invisible"
    and radius: "selRadius E (Type_Body B) = 6371"
    and float: "toFloat E 1 = 1"
  shows "(let g = gotoSelection E a (Type_Body B) 5 up upFrame ob;
              u = update E 5 1 g;
              D = vnorm (offsetFromKm (selGetPosition E (Type_Body B) (getTime ob)) (getPosition ob))
          in startInterpolation (journey g) = 0
           \<and> endInterpolation (journey g) = 1 / 2
           \<and> accelTime (journey g) = 1 / 2
           \<and> getMode u = Free
           \<and> getPreferredDistance E (Type_Body B) = 5 * 6371
           \<and> (D > 10 * (5 * 6371) \<longrightarrow> getOrbitDistance E (Type_Body B) D = 5 * 6371)
           \<and> (getCoordinateSystem (getFrame ob) = Ecliptical
                \<and> translationFrame E (Type_Body B)
                \<and> rfGetOrientation E (J2000EclipticFrame Type_Nil) (getTime ob) = qIdentity
                \<and> targetVelocity ob = Zero3
                \<and> empty_sel (trackObject ob)
                \<and> getPosition ob \<noteq> selGetPosition E (Type_Body B) (getTime ob)
                \<and> \<not> isOutOfBounds E (convertToUniversal E (getFrame g) (jto (journey g)) (getTime u))
              \<longrightarrow> vnorm (offsetFromKm (selGetPosition E (Type_Body B) (getTime u)) (getPosition u))
                    = getOrbitDistance E (Type_Body B) D))"
proof -
  define sel where "sel = Type_Body B"
  define g where "g = gotoSelection E a sel 5 up upFrame ob"
  define u where "u = update E 5 1 g"
  define P0 where "P0 = selGetPosition E sel (simTime ob)"
  define v where "v = offsetFromKm P0 (getPosition ob)"
  define D where "D = vnorm v"
  define od where "od = getOrbitDistance E sel D"
  define off where "off = vscale v (- (od / D))"
  define t' where "t' = simTime (advanceTime 5 1 g)"
  have ne: "\<not> empty_sel sel" by (simp add: sel_def empty_sel_def)
  note gj = gotoSelection_journey [OF ne, of E a 5 up upFrame ob, folded g_def]
  have pref: "getPreferredDistance E sel = 5 * 6371"
    using visible radius by (simp add: sel_def)
  have od_pos: "0 < od"
    using radius by (simp add: od_def getOrbitDistance_def Let_def sel_def)
  have od_far: "od = 5 * 6371" if "D > 10 * (5 * 6371)"
    using that radius pref by (simp add: od_def getOrbitDistance_def Let_def sel_def)
  have mode: "getMode u = Free"
    unfolding getMode_def u_def
    by (rule update_mode_arrives) (use float in \<open>simp_all add: gj\<close>)
  have time: "getTime u = t'"
    by (simp add: getTime_def u_def update_simTime t'_def)
  have dist: "vnorm (offsetFromKm (selGetPosition E sel (getTime u)) (getPosition u)) = od"
    if tag: "getCoordinateSystem (getFrame ob) = Ecliptical"
      and trans: "translationFrame E sel"
      and unrot: "rfGetOrientation E (J2000EclipticFrame Type_Nil) (simTime ob) = qIdentity"
      and still: "targetVelocity ob = Zero3"
      and notrack: "empty_sel (trackObject ob)"
      and apart: "getPosition ob \<noteq> P0"
      and inb: "\<not> isOutOfBounds E (convertToUniversal E (getFrame g) (jto (journey g)) (getTime u))"
  proof -
    have Dpos: "0 < D"
    proof -
      have "v \<noteq> Zero3"
        using apart
        by (cases "getPosition ob"; cases P0) (auto simp add: v_def offsetFromKm_def Zero3_def)
      then have "squaredNorm v \<noteq> 0"
        by (cases v) (simp add: squaredNorm_def dot_def Zero3_def
            sum_nonneg_eq_0_iff add_nonneg_eq_0_iff)
      then show ?thesis
        using squaredNorm_nonneg [of v] by (simp add: D_def vnorm_def)
    qed
    have noff: "vnorm off = od"
      using Dpos od_pos by (simp add: off_def vnorm_vscale D_def [symmetric])
    have fr: "frame_rf (getFrame g) = J2000EclipticFrame sel"
      using tag by (simp add: getFrame_def gj ObserverFrame_new_def createFrame_def)
    have fromU: "convertFromUniversal E (getFrame g) p t
                   = offsetKm p (offsetFromKm ucZero (selGetPosition E sel t))" for p t
      using trans by (simp add: convertFromUniversal_def fr translationFrame_def sel_def)
    have toU: "convertToUniversal E (getFrame g) p t
                 = offsetKm p (offsetFromKm (selGetPosition E sel t) ucZero)" for p t
      using trans by (simp add: convertToUniversal_def fr translationFrame_def sel_def)
    have Dne: "vnorm (offsetFromKm (selGetPosition E sel (simTime ob)) (getPosition ob)) \<noteq> 0"
      using Dpos by (simp add: D_def v_def P0_def)
    have jto: "jto (journey g) = offsetKm (offsetKm P0 off) (offsetFromKm ucZero P0)"
      using gotoSelection_jto [OF ne unrot Dne, of a 5 up upFrame]
      by (simp add: g_def [symmetric] fromU P0_def [symmetric] v_def [symmetric]
          D_def [symmetric] od_def [symmetric] off_def [symmetric])
    have upd: "u = updateUniversal E (updateFree 5 (arrived 5 1 g))"
      unfolding u_def
      by (rule update_arrives) (use float still notrack in \<open>simp_all add: gj\<close>)
    have pos: "getPosition u = offsetKm (jto (journey g)) (offsetFromKm (selGetPosition E sel t') ucZero)"
    proof -
      have "\<not> isOutOfBounds E (convertToUniversal E (getFrame g) (jto (journey g)) t')"
        using inb by (simp add: time)
      then show ?thesis
        unfolding getPosition_def upd
        by (subst updateUniversal_inBounds)
           (simp_all add: updateFree_keeps getFrame_def arrived_def advanceTime_keeps t'_def
              toU [unfolded getFrame_def])
    qed
    show ?thesis
      by (simp add: time pos jto translation_there_and_back vnorm_vneg noff)
  qed
  show ?thesis
    using gj(4,5,6) mode dist pref od_far
    by (simp add: Let_def sel_def [symmetric] g_def [symmetric] u_def [symmetric] getTime_def
        P0_def [symmetric] v_def [symmetric] D_def [symmetric] od_def [symmetric])
qed

theorem example_scenario_witness:
  "getClassification sampleBody \<noteq> Invisible
   \<and> selRadius sampleExternals (Type_Body sampleBody) = 6371
   \<and> toFloat sampleExternals 1 = 1
   \<and> getCoordinateSystem (getFrame sampleFollowing) = Ecliptical
   \<and> getPosition sampleFollowing = ucZero
   \<and> targetVelocity sampleFollowing = Zero3
   \<and> empty_sel (trackObject sampleFollowing)
   \<and> startInterpolation (journey sampleGoto) = 0
   \<and> endInterpolation (journey sampleGoto) = 1 / 2
   \<and> accelTime (journey sampleGoto) = 1 / 2
   \<and> getMode (update sampleExternals 5 1 sampleGoto) = Free
   \<and> vnorm (offsetFromKm
        (selGetPosition sampleExternals (Type_Body sampleBody) (getTime (update sampleExternals 5 1 sampleGoto)))
        (getPosition (update sampleExternals 5 1 sampleGoto))) = 5 * 6371"
proof -
  have visible: "getClassification sampleBody \<noteq> Invisible"
    by (simp add: sampleBody_def)
  have radius: "selRadius sampleExternals (Type_Body sampleBody) = 6371"
    by (simp add: sampleExternals_def sampleRadius_def sampleBody_def)
  have tag: "getCoordinateSystem (getFrame sampleFollowing) = Ecliptical"
    by (simp add: sampleFollowing_eq getFrame_def getCoordinateSystem_def ObserverFrame_new_def)
  have trans: "translationFrame sampleExternals (Type_Body sampleBody)"
    by (simp add: translationFrame_def sampleExternals_def)
  have unrot: "rfGetOrientation sampleExternals (J2000EclipticFrame Type_Nil) (getTime sampleFollowing) = qIdentity"
    by (simp add: sampleExternals_def)
  have still: "targetVelocity sampleFollowing = Zero3"
    by (simp add: sampleFollowing_eq sampleObserver_eq)
  have notrack: "empty_sel (trackObject sampleFollowing)"
    by (simp add: sampleFollowing_eq sampleObserver_eq empty_sel_def)
  have origin: "getPosition sampleFollowing = ucZero"
    by (simp add: sampleFollowing_eq sampleObserver_eq getPosition_def ucZero_def)
  have there: "selGetPosition sampleExternals (Type_Body sampleBody) t = UniversalCoord 1000000 0 0" for t
    by (simp add: sampleExternals_def samplePosition_def sampleBody_def)
  have apart: "getPosition sampleFollowing
                 \<noteq> selGetPosition sampleExternals (Type_Body sampleBody) (getTime sampleFollowing)"
    by (simp add: origin there ucZero_def)
  have inb: "\<not> isOutOfBounds sampleExternals
                 (convertToUniversal sampleExternals
                    (getFrame (gotoSelection sampleExternals 2 (Type_Body sampleBody) 5 UnitY Universal sampleFollowing))
                    (jto (journey (gotoSelection sampleExternals 2 (Type_Body sampleBody) 5 UnitY Universal sampleFollowing)))
                    (getTime (update sampleExternals 5 1
                       (gotoSelection sampleExternals 2 (Type_Body sampleBody) 5 UnitY Universal sampleFollowing))))"
    by (simp add: sampleGoto_def [symmetric] sampleGoto_fields getFrame_def sample_toUniversal sample_inBounds)
  have far: "vnorm (offsetFromKm (selGetPosition sampleExternals (Type_Body sampleBody) t) ucZero) = 1000000"
    for t
    by (simp add: there ucZero_def offsetFromKm_def vnorm_x_axis)
  have all: "let g = gotoSelection sampleExternals 2 (Type_Body sampleBody) 5 UnitY Universal sampleFollowing;
              u = update sampleExternals 5 1 g;
              D = vnorm (offsetFromKm (selGetPosition sampleExternals (Type_Body sampleBody)
                                        (getTime sampleFollowing)) (getPosition sampleFollowing))
          in startInterpolation (journey g) = 0
           \<and> endInterpolation (journey g) = 1 / 2
           \<and> accelTime (journey g) = 1 / 2
           \<and> getMode u = Free
           \<and> getPreferredDistance sampleExternals (Type_Body sampleBody) = 5 * 6371
           \<and> (D > 10 * (5 * 6371) \<longrightarrow> getOrbitDistance sampleExternals (Type_Body sampleBody) D = 5 * 6371)
           \<and> (getCoordinateSystem (getFrame sampleFollowing) = Ecliptical
                \<and> translationFrame sampleExternals (Type_Body sampleBody)
                \<and> rfGetOrientation sampleExternals (J2000EclipticFrame Type_Nil) (getTime sampleFollowing) = qIdentity
                \<and> targetVelocity sampleFollowing = Zero3
                \<and> empty_sel (trackObject sampleFollowing)
                \<and> getPosition sampleFollowing
                     \<noteq> selGetPosition sampleExternals (Type_Body sampleBody) (getTime sampleFollowing)
                \<and> \<not> isOutOfBounds sampleExternals
                      (convertToUniversal sampleExternals (getFrame g) (jto (journey g)) (getTime u))
              \<longrightarrow> vnorm (offsetFromKm (selGetPosition sampleExternals (Type_Body sampleBody) (getTime u))
                          (getPosition u))
                    = getOrbitDistance sampleExternals (Type_Body sampleBody) D)"
    using example_scenario [OF visible radius sample_toFloat, of 2 UnitY Universal sampleFollowing] .
  show ?thesis
    using visible radius tag origin still notrack trans unrot apart inb all
    by (simp add: Let_def sampleGoto_def [symmetric] far sample_toFloat)
qed

text \<open>The claim as it was stated fails in the scenario itself, with the body a million
  kilometres from the origin: the window is [0, 0.5] and not [0.25, 0.75], and the
  distance to the body after the update is 31855 km, the preferred distance, and not five
  times it.\<close>

theorem example_scenario_counterexample:
  "startInterpolation (journey sampleGoto) = 0
   \<and> endInterpolation (journey sampleGoto) = 1 / 2
   \<and> StartInterpolation = 1 / 4
   \<and> EndInterpolation = 3 / 4
   \<and> getMode (update sampleExternals 5 1 sampleGoto) = Free
   \<and> vnorm (offsetFromKm
        (selGetPosition sampleExternals (Type_Body sampleBody) (getTime (update sampleExternals 5 1 sampleGoto)))
        (getPosition (update sampleExternals 5 1 sampleGoto))) = 31855
   \<and> 5 * getPreferredDistance sampleExternals (Type_Body sampleBody) = 159275"
  by (simp add: sampleGoto_fields StartInterpolation_def EndInterpolation_def preferred_sample
      sampleGoto_update getMode_def getPosition_def)
     (simp add: sampleExternals_def samplePosition_def sampleBody_def sampleRadius_def offsetFromKm_def
        vnorm_x_axis)

subsection \<open>The frame a goto installs\<close>

text \<open>
  C10, as amended. For a destination selection that is not empty, the direct gotos (the
  three overloads of \<^verbatim>\<open>gotoSelection\<close> and \<^verbatim>\<open>gotoSelectionLongLat\<close>) and the great-circle
  gotos (the two overloads of \<^verbatim>\<open>gotoSelectionGC\<close>) replace the observer's frame by the frame
  \<^verbatim>\<open>ObserverFrame(tag, destination)\<close>, where the tag is the current coordinate system, or
  \<^verbatim>\<open>Ecliptical\<close> for a direct goto from a \<^verbatim>\<open>PhaseLock\<close> frame; the universal position and
  orientation are as before and the mode is \<^verbatim>\<open>Travelling\<close>. The new frame carries that
  tag. Its reference object is the destination, except under the tags \<^verbatim>\<open>Universal\<close> and
  \<^verbatim>\<open>ObserverLocal\<close>, whose frame \<^verbatim>\<open>createFrame\<close> centers on the empty selection.
\<close>

theorem goto_replaces_frame:
  assumes "\<not> empty_sel sel"
  shows "(let cs = getCoordinateSystem (getFrame ob);
              cs' = (if cs = PhaseLock then Ecliptical else cs)
          in gotoFrame E a cs' sel ob (gotoSelection E a sel gotoTime up upFrame ob)
           \<and> gotoFrame E a cs' sel ob (gotoSelection_interp E a sel gotoTime si ei acc up upFrame ob)
           \<and> gotoFrame E a cs' sel ob (gotoSelection_dist E a sel gotoTime d up upFrame ob)
           \<and> gotoFrame E a cs' sel ob (gotoSelectionLongLat E a sel gotoTime d lon lat up ob)
           \<and> gotoFrame E a cs sel ob (gotoSelectionGC E a sel gotoTime up upFrame ob)
           \<and> gotoFrame E a cs sel ob (gotoSelectionGC_dist E a sel gotoTime d up upFrame ob)
           \<and> getCoordinateSystem (ObserverFrame_new E cs' sel Type_Nil) = cs'
           \<and> getCoordinateSystem (ObserverFrame_new E cs sel Type_Nil) = cs
           \<and> getRefObject (ObserverFrame_new E cs' sel Type_Nil) =
               (if cs' = Universal \<or> cs' = ObserverLocal then Type_Nil else sel)
           \<and> getRefObject (ObserverFrame_new E cs sel Type_Nil) =
               (if cs = Universal \<or> cs = ObserverLocal then Type_Nil else sel))"
  using assms
  by (simp add: Let_def gotoFrame_def gotoSelection_def gotoSelection_interp_def gotoSelection_dist_def
        gotoSelectionLongLat_def gotoSelectionGC_def gotoSelectionGC_dist_def
        computeGotoParameters_frame computeGotoParametersGC_frame getPosition_def getOrientation_def
        getMode_def getCoordinateSystem_def getRefObject_def ObserverFrame_new_def createFrame_def
        split: CoordinateSystem.splits)

theorem goto_replaces_frame_witness:
  "\<not> empty_sel (Type_Body sampleBody)
   \<and> gotoFrame sampleExternals 1 Universal (Type_Body sampleBody) sampleObserver
       (gotoSelection sampleExternals 1 (Type_Body sampleBody) 5 UnitY Universal sampleObserver)
   \<and> gotoFrame sampleExternals 1 Universal (Type_Body sampleBody) sampleObserver
       (gotoSelectionGC sampleExternals 1 (Type_Body sampleBody) 5 UnitY Universal sampleObserver)"
proof -
  have h: "\<not> empty_sel (Type_Body sampleBody)"
    by (simp add: empty_sel_def)
  have cs: "getCoordinateSystem (getFrame sampleObserver) = Universal"
    by (simp add: sampleObserver_def Observer_init_def updateUniversal_def Let_def getFrame_def
        getCoordinateSystem_def ObserverFrame_default_def)
  show ?thesis
    using h cs
      goto_replaces_frame [OF h, of sampleObserver sampleExternals 1 5 UnitY Universal 0 0 0 0 0 0]
    by (simp add: Let_def)
qed

text \<open>The claim as it was stated fails for the observer a default constructor gives: its
  coordinate system is \<^verbatim>\<open>Universal\<close>, and after a goto to a body the reference object of
  its frame is the empty selection, not the body.\<close>

theorem goto_anchor_counterexample:
  "getCoordinateSystem (getFrame sampleObserver) = Universal
   \<and> \<not> empty_sel (Type_Body sampleBody)
   \<and> getRefObject (getFrame (gotoSelection sampleExternals 1 (Type_Body sampleBody) 5 UnitY Universal
                                sampleObserver)) = Type_Nil
   \<and> Type_Body sampleBody \<noteq> Type_Nil"
  by (simp add: gotoSelection_def gotoSelection_interp_def computeGotoParameters_frame getFrame_def
      empty_sel_def getRefObject_def ObserverFrame_new_def createFrame_def sampleObserver_def
      Observer_init_def updateUniversal_def Let_def getCoordinateSystem_def ObserverFrame_default_def)

end
